theory Spec2Isabelle
  imports Complex_Main "HOL-Library.Word" "HOL-Library.Signed_Division"
begin

section \<open>Resource ledgers\<close>

text \<open>
  The scheduler plugin keeps, for every node and every pod, one ledger per resource kind
  (vCPU and memory slots). In the source the ledgers are the generic structs
  \<open>nodeResourceState[T]\<close> and \<open>podResourceState[T]\<close>; \<open>T\<close> ranges over the unsigned
  integer types and is instantiated with \<open>uint16\<close>. The records below are generic in the
  same way; every function on them is typed at \<open>'a word\<close>, so that \<open>+\<close> and \<open>-\<close> wrap
  around exactly as Go's unsigned arithmetic does.

  Both records have fields called \<open>Reserved\<close>, \<open>Buffer\<close> and \<open>CapacityPressure\<close>; the
  node's fields carry the prefix \<open>n_\<close> and the pod's the prefix \<open>p_\<close>.
\<close>

text \<open>
  Modelled from the spec: the struct declarations in state.go list total, system,
  watermark, reserved, capacityPressure and pressureAccountedFor for the node and reserved
  and capacityPressure for the pod; the declarations with the fields \<open>Buffer\<close>, \<open>Min\<close> and
  \<open>Max\<close>, which the transitioner reads and writes, are not among the source files. The
  spec's data model gives the node ledger the fields \<open>Total\<close>, \<open>System\<close>, \<open>Watermark\<close>,
  \<open>Reserved\<close>, \<open>Buffer\<close>, \<open>CapacityPressure\<close>, \<open>PressureAccountedFor\<close> and the pod ledger
  the fields \<open>Reserved\<close>, \<open>Buffer\<close>, \<open>CapacityPressure\<close>, \<open>Min\<close>, \<open>Max\<close>.
\<close>

record 't nodeResourceState =
  n_Total :: 't
  n_System :: 't
  n_Watermark :: 't
  n_Reserved :: 't
  n_Buffer :: 't
  n_CapacityPressure :: 't
  n_PressureAccountedFor :: 't

record 't podResourceState =
  p_Reserved :: 't
  p_Buffer :: 't
  p_CapacityPressure :: 't
  p_Min :: 't
  p_Max :: 't

text \<open>
  A resource transitioner holds a pointer to one node ledger and one pod ledger and mutates
  both in place. The model passes the pair in and returns the updated pair. The verdict
  string every handler returns is log formatting of values computed anyway; it is not part
  of the model.
\<close>

type_synonym 't resourceTransitioner = "'t nodeResourceState \<times> 't podResourceState"

text \<open>Go panics are values: a handler that can panic returns \<open>panic + result\<close>.\<close>

datatype panic =
  BufferNonZero
  | DivideByZero
  | UnderflowCpu
  | UnderflowMemory
  | MemSlotsOverflow
  | Todo

section \<open>Helpers of package util\<close>

text \<open>
  Modelled from the spec: \<open>util.SaturatingSub\<close> lives in package pkg/util, which is not
  among the source files. The spec calls it \<open>saturating_sub\<close> and asks for saturating
  arithmetic when \<open>Reserved\<close> exceeds the total: the difference, or zero where the
  subtraction would go below zero.
\<close>

definition SaturatingSub :: "'a::len word \<Rightarrow> 'a word \<Rightarrow> 'a word" where
  "SaturatingSub x y = (if x < y then 0 else x - y)"

text \<open>
  Modelled from the spec: \<open>util.Max\<close> lives in package pkg/util, which is not among the
  source files. The spec writes \<open>pod.Reserved = max(newMax, using)\<close>: the larger of the
  two arguments.
\<close>

definition Max_util :: "'a::len word \<Rightarrow> 'a word \<Rightarrow> 'a word" where
  "Max_util x y = (if x < y then y else x)"

section \<open>The resource transitioner\<close>

subsection \<open>handleLastPermit\<close>

definition handleLastPermit ::
  "'a::len word \<Rightarrow> 'a word resourceTransitioner \<Rightarrow> 'a word resourceTransitioner" where
  "handleLastPermit lastPermit r =
    (case r of (n, p) \<Rightarrow>
      if lastPermit \<le> p_Reserved p then
        let n = n\<lparr>n_Reserved := n_Reserved n - (p_Reserved p - lastPermit)\<rparr>;
            p = p\<lparr>p_Reserved := lastPermit\<rparr>
        in if p_Buffer p \<noteq> 0 then
             let n = n\<lparr>n_Buffer := n_Buffer n - p_Buffer p\<rparr>;
                 p = p\<lparr>p_Buffer := 0\<rparr>
             in (n, p)
           else (n, p)
      else (n, p))"

subsection \<open>handleRequested\<close>

text \<open>
  The decrease path and the increase path of \<open>handleRequested\<close> fall through to a shared
  tail that clears the pod's buffer (the denied-during-migration path returns before it).
\<close>

definition registerTail :: "'a::len word resourceTransitioner \<Rightarrow> 'a word resourceTransitioner" where
  "registerTail r =
    (case r of (n, p) \<Rightarrow>
      if p_Buffer p \<noteq> 0 then
        let n = n\<lparr>n_Buffer := n_Buffer n - p_Buffer p\<rparr>;
            p = p\<lparr>p_Buffer := 0\<rparr>
        in (n, p)
      else (n, p))"

text \<open>
  \<open>totalReservable\<close> is the node's \<open>Total\<close>. The snapshot \<open>oldState\<close> is the pair the
  function was called with. In the increase path \<open>remainingReservable / factor\<close> is an
  integer division, which panics in Go when \<open>factor\<close> is zero; in the migration path the
  assertion on the pod's buffer panics.
\<close>

definition handleRequested ::
  "'a::len word \<Rightarrow> bool \<Rightarrow> 'a word \<Rightarrow> 'a word resourceTransitioner
     \<Rightarrow> panic + 'a word resourceTransitioner" where
  "handleRequested requested startingMigration factor r =
    (case r of (n, p) \<Rightarrow>
      let oldNode = n; oldPod = p;
          totalReservable = n_Total n;
          remainingReservable = SaturatingSub totalReservable (n_Reserved oldNode)
      in
      if requested \<le> p_Reserved p then
        let n = n\<lparr>n_Reserved := n_Reserved n - (p_Reserved p - requested)\<rparr>;
            p = p\<lparr>p_Reserved := requested\<rparr>;
            p = p\<lparr>p_CapacityPressure := 0\<rparr>;
            n = n\<lparr>n_CapacityPressure := n_CapacityPressure n - p_CapacityPressure oldPod\<rparr>
        in Inr (registerTail (n, p))
      else if startingMigration then
        let p = p\<lparr>p_CapacityPressure := requested - p_Reserved p\<rparr>;
            n = n\<lparr>n_CapacityPressure :=
                    n_CapacityPressure n + p_CapacityPressure p - p_CapacityPressure oldPod\<rparr>
        in if p_Buffer p \<noteq> 0 then Inl BufferNonZero else Inr (n, p)
      else
        let increase = requested - p_Reserved p in
        if factor = 0 then Inl DivideByZero
        else
          let maxIncrease = (remainingReservable div factor) * factor;
              (n, p, increase) =
                (if increase > maxIncrease then
                   let p = p\<lparr>p_CapacityPressure := increase - maxIncrease\<rparr>;
                       n = n\<lparr>n_CapacityPressure :=
                               n_CapacityPressure n - p_CapacityPressure oldPod
                                 + p_CapacityPressure p\<rparr>
                   in (n, p, maxIncrease)
                 else
                   let n = n\<lparr>n_CapacityPressure := n_CapacityPressure n - p_CapacityPressure p\<rparr>;
                       p = p\<lparr>p_CapacityPressure := 0\<rparr>
                   in (n, p, increase));
              p = p\<lparr>p_Reserved := p_Reserved p + increase\<rparr>;
              n = n\<lparr>n_Reserved := n_Reserved n + increase\<rparr>
          in Inr (registerTail (n, p)))"

subsection \<open>handleDeleted\<close>

definition handleDeleted ::
  "bool \<Rightarrow> 'a::len word resourceTransitioner \<Rightarrow> 'a word resourceTransitioner" where
  "handleDeleted currentlyMigrating r =
    (case r of (n, p) \<Rightarrow>
      let n = n\<lparr>n_Reserved := n_Reserved n - p_Reserved p\<rparr>;
          n = n\<lparr>n_CapacityPressure := n_CapacityPressure n - p_CapacityPressure p\<rparr>;
          n = (if currentlyMigrating
               then n\<lparr>n_PressureAccountedFor :=
                         n_PressureAccountedFor n - (p_Reserved p + p_CapacityPressure p)\<rparr>
               else n);
          n = (if p_Buffer p \<noteq> 0 then n\<lparr>n_Buffer := n_Buffer n - p_Buffer p\<rparr> else n)
      in (n, p))"

subsection \<open>handleNonAutoscalingUsageChange\<close>

definition handleNonAutoscalingUsageChange ::
  "'a::len word \<Rightarrow> 'a word resourceTransitioner \<Rightarrow> 'a word resourceTransitioner" where
  "handleNonAutoscalingUsageChange newUsage r =
    (case r of (n, p) \<Rightarrow>
      let diff = newUsage - p_Reserved p;
          p = p\<lparr>p_Reserved := newUsage\<rparr>;
          n = n\<lparr>n_Reserved := n_Reserved n + diff\<rparr>
      in (n, p))"

subsection \<open>handleAutoscalingDisabled and handleStartMigration\<close>

text \<open>
  Both handlers build the slice \<open>valuesToReduce\<close> of four pointers into the two ledgers
  and subtract the pod's buffer, read once before the loop, from each target in turn.
  A pointer is modelled by the name of the field it points to.
\<close>

datatype slot = NodeReserved | NodeBuffer | PodReserved | PodBuffer

fun reduceSlot ::
  "'a::len word \<Rightarrow> slot \<Rightarrow> 'a word resourceTransitioner \<Rightarrow> 'a word resourceTransitioner" where
  "reduceSlot b NodeReserved (n, p) = (n\<lparr>n_Reserved := n_Reserved n - b\<rparr>, p)"
| "reduceSlot b NodeBuffer (n, p) = (n\<lparr>n_Buffer := n_Buffer n - b\<rparr>, p)"
| "reduceSlot b PodReserved (n, p) = (n, p\<lparr>p_Reserved := p_Reserved p - b\<rparr>)"
| "reduceSlot b PodBuffer (n, p) = (n, p\<lparr>p_Buffer := p_Buffer p - b\<rparr>)"

definition valuesToReduce :: "slot list" where
  "valuesToReduce = [NodeReserved, NodeBuffer, PodReserved, PodBuffer]"

definition handleAutoscalingDisabled ::
  "'a::len word resourceTransitioner \<Rightarrow> 'a word resourceTransitioner" where
  "handleAutoscalingDisabled r =
    (let buffer = p_Buffer (snd r) in
     case fold (reduceSlot buffer) valuesToReduce r of (n, p) \<Rightarrow>
       let n = n\<lparr>n_CapacityPressure := n_CapacityPressure n - p_CapacityPressure p\<rparr>;
           p = p\<lparr>p_CapacityPressure := 0\<rparr>
       in (n, p))"

text \<open>The parameter \<open>source\<close> of \<open>handleStartMigration\<close> is never read by its body.\<close>

definition handleStartMigration ::
  "bool \<Rightarrow> 'a::len word resourceTransitioner \<Rightarrow> 'a word resourceTransitioner" where
  "handleStartMigration source r =
    (let buffer = p_Buffer (snd r) in
     case fold (reduceSlot buffer) valuesToReduce r of (n, p) \<Rightarrow>
       let n = n\<lparr>n_CapacityPressure := n_CapacityPressure n - p_CapacityPressure p\<rparr>;
           p = p\<lparr>p_CapacityPressure := 0\<rparr>;
           n = n\<lparr>n_PressureAccountedFor := n_PressureAccountedFor n + p_Reserved p\<rparr>
       in (n, p))"

subsection \<open>handleUpdatedLimits\<close>

definition handleUpdatedLimits ::
  "'a::len word resourceTransitioner \<Rightarrow> bool \<Rightarrow> 'a word \<Rightarrow> 'a word
     \<Rightarrow> 'a word resourceTransitioner" where
  "handleUpdatedLimits r receivedContact newMin newMax =
    (case r of (n, p) \<Rightarrow>
      if newMin = p_Min p \<and> newMax = p_Max p then (n, p)
      else
        let updateBuffer = (\<not> receivedContact \<and> p_Max p \<noteq> newMax);
            (n, p) =
              (if updateBuffer then
                 let oldPodBuffer = p_Buffer p;
                     oldPodReserved = p_Reserved p;
                     using = p_Reserved p - p_Buffer p;
                     p = p\<lparr>p_Reserved := Max_util newMax using\<rparr>;
                     p = p\<lparr>p_Buffer := p_Reserved p - using\<rparr>;
                     n = n\<lparr>n_Reserved := n_Reserved n + p_Reserved p - oldPodReserved\<rparr>;
                     n = n\<lparr>n_Buffer := n_Buffer n + p_Buffer p - oldPodBuffer\<rparr>
                 in (n, p)
               else (n, p));
            p = p\<lparr>p_Min := newMin\<rparr>;
            p = p\<lparr>p_Max := newMax\<rparr>
        in (n, p))"

section \<open>Node and pod state\<close>

text \<open>
  Non-VM pods are accounted in raw Kubernetes quantities. A \<open>resource.Quantity\<close> is an
  exact decimal number; it is modelled by its value as a rational. \<open>Cmp\<close> compares the
  values, \<open>Add\<close> and \<open>Sub\<close> are exact, and \<open>DeepCopy\<close> is the identity on values.

  \<open>Value()\<close> is a method of the Kubernetes library, which is not part of the repository.
  It returns an \<open>int64\<close>; how it rounds an amount that is not integral, and what it
  returns for an amount outside the range of \<open>int64\<close>, depends on how the library holds
  the amount. The model assumes nothing about it: \<open>Value\<close> is a parameter of every
  function that calls it.
\<close>

type_synonym Quantity = rat

definition Cmp :: "Quantity \<Rightarrow> Quantity \<Rightarrow> int" where
  "Cmp x y = (if x < y then -1 else if x = y then 0 else 1)"

text \<open>
  Go's \<open>int64\<close> is a 64-bit word: \<open>+\<close> and \<open>-\<close> wrap around, comparisons read the word
  as a signed number, and \<open>/\<close> is the quotient of the signed values truncated towards
  zero (for the most negative value divided by -1 it wraps to the dividend). Division by
  zero panics and is checked where it can occur.
\<close>

definition int64_div :: "64 word \<Rightarrow> 64 word \<Rightarrow> 64 word" where
  "int64_div a b = word_of_int (sint a sdiv sint b)"

record nodeOtherResourceState =
  rawCpu :: Quantity
  rawMemory :: Quantity
  reservedCpu :: "16 word"
  reservedMemSlots :: "16 word"

record podOtherResourceState =
  pod_rawCpu :: Quantity
  pod_rawMemory :: Quantity

text \<open>
  \<open>calculateReserved\<close> converts the raw amounts to the 16-bit units of the ledgers. The
  conversion \<open>uint16(x)\<close> keeps the low 16 bits of the \<open>int64\<close>; the sum
  \<open>Value() + memSlotSizeExact - 1\<close> is computed in \<open>int64\<close>; the division panics on a
  zero divisor; the explicit range check is a signed comparison and panics as well.
\<close>

definition calculateReserved ::
  "(Quantity \<Rightarrow> 64 word) \<Rightarrow> Quantity \<Rightarrow> nodeOtherResourceState
     \<Rightarrow> panic + nodeOtherResourceState" where
  "calculateReserved Value memSlotSize r =
    (let r = r\<lparr>reservedCpu := ucast (Value (rawCpu r))\<rparr>;
         memSlotSizeExact = Value memSlotSize
     in if memSlotSizeExact = 0 then Inl DivideByZero
        else
          let newReservedMemSlots =
                int64_div (Value (rawMemory r) + memSlotSizeExact - 1) memSlotSizeExact
          in if sint newReservedMemSlots > 2 ^ 16 - 1 then Inl MemSlotsOverflow
             else Inr (r\<lparr>reservedMemSlots := ucast newReservedMemSlots\<rparr>))"

definition addPod ::
  "(Quantity \<Rightarrow> 64 word) \<Rightarrow> nodeOtherResourceState \<Rightarrow> Quantity \<Rightarrow> podOtherResourceState
     \<Rightarrow> panic + nodeOtherResourceState" where
  "addPod Value r memSlotSize p =
    (let newState = \<lparr>rawCpu = rawCpu r, rawMemory = rawMemory r, reservedCpu = 0, reservedMemSlots = 0\<rparr>;
         newState = newState\<lparr>rawCpu := rawCpu newState + pod_rawCpu p\<rparr>;
         newState = newState\<lparr>rawMemory := rawMemory newState + pod_rawMemory p\<rparr>
     in calculateReserved Value memSlotSize newState)"

text \<open>
  The two underflow guards of \<open>subPod\<close> are transcribed operand by operand: the first
  compares the node's raw CPU with the pod's, the second compares the node's raw memory
  with the node's raw memory.
\<close>

definition subPod ::
  "(Quantity \<Rightarrow> 64 word) \<Rightarrow> nodeOtherResourceState \<Rightarrow> Quantity \<Rightarrow> podOtherResourceState
     \<Rightarrow> panic + nodeOtherResourceState" where
  "subPod Value r memSlotSize p =
    (if Cmp (rawCpu r) (pod_rawCpu p) = -1 then Inl UnderflowCpu
     else if Cmp (rawMemory r) (rawMemory r) = -1 then Inl UnderflowMemory
     else
       let newState = \<lparr>rawCpu = rawCpu r, rawMemory = rawMemory r, reservedCpu = 0, reservedMemSlots = 0\<rparr>;
           newState = newState\<lparr>rawCpu := rawCpu newState - pod_rawCpu p\<rparr>;
           newState = newState\<lparr>rawMemory := rawMemory newState - pod_rawMemory p\<rparr>
       in calculateReserved Value memSlotSize newState)"

text \<open>
  A node carries one ledger for vCPU and one for memory slots, the sub-ledger of the non-VM
  pods and its migration queue. The type \<open>migrationQueue\<close> is declared in a file that is
  not among the sources, so the queue is a type parameter \<open>'q\<close>. The maps \<open>pods\<close> and
  \<open>otherPods\<close> and the compute unit are not read by any function modelled here.
\<close>

record 'q nodeState =
  node_name :: string
  node_vCPU :: "16 word nodeResourceState"
  node_memSlots :: "16 word nodeResourceState"
  otherResources :: nodeOtherResourceState
  mq :: 'q

datatype podMigrationState = PodMigrationState

text \<open>
  A pod carries its two ledgers, its index in the migration queue and its migration
  handle; a nil pointer is \<open>None\<close>. The pointer \<open>node\<close> to the pod's node is resolved by
  the caller of the model: functions that follow it take the node as an argument and
  return it updated.
\<close>

record podState =
  pod_name :: string
  pod_vCPU :: "16 word podResourceState"
  pod_memSlots :: "16 word podResourceState"
  mqIndex :: int
  migrationState :: "podMigrationState option"

definition totalReservableCPU :: "'q nodeState \<Rightarrow> 16 word" where
  "totalReservableCPU s = n_Total (node_vCPU s) - n_System (node_vCPU s)"

definition totalReservableMemSlots :: "'q nodeState \<Rightarrow> 16 word" where
  "totalReservableMemSlots s = n_Total (node_memSlots s) - n_System (node_memSlots s)"

definition remainingReservableCPU :: "'q nodeState \<Rightarrow> 16 word" where
  "remainingReservableCPU s = totalReservableCPU s - n_Reserved (node_vCPU s)"

definition remainingReservableMemSlots :: "'q nodeState \<Rightarrow> 16 word" where
  "remainingReservableMemSlots s = totalReservableMemSlots s - n_Reserved (node_memSlots s)"

subsection \<open>tooMuchPressure\<close>

definition tooMuchPressure :: "'q nodeState \<Rightarrow> bool" where
  "tooMuchPressure s =
    (if n_Reserved (node_vCPU s) \<le> n_Watermark (node_vCPU s)
        \<and> n_Reserved (node_memSlots s) < n_Watermark (node_memSlots s)
     then False
     else
       let logicalCpuPressure = n_Reserved (node_vCPU s) - n_Watermark (node_vCPU s);
           logicalMemPressure = n_Reserved (node_memSlots s) - n_Watermark (node_memSlots s);
           tooMuchCpu = (logicalCpuPressure + n_CapacityPressure (node_vCPU s)
                           > n_PressureAccountedFor (node_vCPU s));
           tooMuchMem = (logicalMemPressure + n_CapacityPressure (node_memSlots s)
                           > n_PressureAccountedFor (node_memSlots s))
       in tooMuchCpu \<or> tooMuchMem)"

text \<open>
  The predicate as the specification words it, over the numbers the ledger fields stand
  for: false when both resources have \<open>Reserved \<le> Watermark\<close>; otherwise true iff
  \<open>max(0, Reserved - Watermark) + CapacityPressure > PressureAccountedFor\<close> for one of
  the two resources.
\<close>

definition pressureExceeds_spec :: "16 word nodeResourceState \<Rightarrow> bool" where
  "pressureExceeds_spec l =
     (max 0 (uint (n_Reserved l) - uint (n_Watermark l)) + uint (n_CapacityPressure l)
        > uint (n_PressureAccountedFor l))"

definition tooMuchPressure_spec :: "'q nodeState \<Rightarrow> bool" where
  "tooMuchPressure_spec s =
    (if n_Reserved (node_vCPU s) \<le> n_Watermark (node_vCPU s)
        \<and> n_Reserved (node_memSlots s) \<le> n_Watermark (node_memSlots s)
     then False
     else pressureExceeds_spec (node_vCPU s) \<or> pressureExceeds_spec (node_memSlots s))"

subsection \<open>startMigration\<close>

definition currentlyMigrating :: "podState \<Rightarrow> bool" where
  "currentlyMigrating s = (migrationState s \<noteq> None)"

datatype error = AlreadyMigrating | MigrationUnimplemented

text \<open>
  \<open>startMigration\<close> reads neither its receiver nor its context and client arguments; it
  works on the pod and, through the pod's \<open>node\<close> pointer, on the pod's node. Every path
  returns an error. The method \<open>removeIfPresent\<close> of the migration queue is declared with
  the queue, outside the sources: it is the parameter \<open>removeIfPresent\<close>, which takes the
  queue and the pod and returns the queue and the pod's stored queue index as it leaves
  them (the specification: the queue supports \<open>removeIfPresent(pod)\<close>, and each pod
  stores its current index).
\<close>

definition startMigration ::
  "('q \<Rightarrow> podState \<Rightarrow> 'q \<times> int) \<Rightarrow> podState \<Rightarrow> 'q nodeState \<Rightarrow> error \<times> podState \<times> 'q nodeState" where
  "startMigration removeIfPresent pod node =
    (if currentlyMigrating pod then (AlreadyMigrating, pod, node)
     else
       let (q, i) = removeIfPresent (mq node) pod;
           node = node\<lparr>mq := q\<rparr>;
           pod = pod\<lparr>mqIndex := i\<rparr>;
           pod = pod\<lparr>migrationState := Some PodMigrationState\<rparr>;
           node = node\<lparr>node_vCPU := (node_vCPU node)\<lparr>n_PressureAccountedFor :=
                    n_PressureAccountedFor (node_vCPU node)
                      + (p_Reserved (pod_vCPU pod) + p_CapacityPressure (pod_vCPU pod))\<rparr>\<rparr>
       in (MigrationUnimplemented, pod, node))"

section \<open>Placement\<close>

text \<open>
  Modelled from the spec: the placement (reserve) entry point is not among the source
  files. The spec says a placed pod's ledger is extracted from the pod's specification and
  inserted into the node, and requires after every transition that the node's \<open>Reserved\<close>,
  \<open>Buffer\<close> and \<open>CapacityPressure\<close> are the sums of its pods' fields of the same name:
  placing a pod adds the three fields of the pod's ledger to the node's.
\<close>

definition placePod :: "'a::len word resourceTransitioner \<Rightarrow> 'a word resourceTransitioner" where
  "placePod r =
    (case r of (n, p) \<Rightarrow>
      let n = n\<lparr>n_Reserved := n_Reserved n + p_Reserved p\<rparr>;
          n = n\<lparr>n_Buffer := n_Buffer n + p_Buffer p\<rparr>;
          n = n\<lparr>n_CapacityPressure := n_CapacityPressure n + p_CapacityPressure p\<rparr>
      in (n, p))"

section \<open>Sequences of events on one node\<close>

text \<open>
  One resource kind of one node, as the plugin state holds it: which of the two resources
  it is, the node's ledger for it, the ledgers of the VM pods assigned to the node (by pod
  name), and the sub-ledger and the table of the node's non-VM pods. The rounded amount of
  the sub-ledger that belongs to this resource is \<open>reservedCpu\<close> for vCPU and
  \<open>reservedMemSlots\<close> for memory slots.
\<close>

datatype resource = Cpu | Mem

definition rounded :: "resource \<Rightarrow> nodeOtherResourceState \<Rightarrow> 16 word" where
  "rounded r other = (case r of Cpu \<Rightarrow> reservedCpu other | Mem \<Rightarrow> reservedMemSlots other)"

record ledgerSystem =
  sys_resource :: resource
  sys_node :: "16 word nodeResourceState"
  sys_pods :: "string \<rightharpoonup> 16 word podResourceState"
  sys_otherResources :: nodeOtherResourceState
  sys_otherPods :: "string \<rightharpoonup> podOtherResourceState"

text \<open>
  Modelled from the spec: \<open>getOrFetchNodeState\<close> creates a node with empty pod tables and
  the zero sub-ledger, but takes its two ledgers from \<open>vCpuLimits\<close> and \<open>memoryLimits\<close>,
  which are not among the source files. The spec: a node entry is populated from the node's
  capacity and the configuration (\<open>Total\<close>, \<open>System\<close>, \<open>Watermark\<close>); \<open>Reserved\<close>,
  \<open>Buffer\<close> and \<open>CapacityPressure\<close> are sums over the node's pods, of which a new node has
  none, and \<open>PressureAccountedFor\<close> covers ongoing migrations, of which there are none.
\<close>

definition emptyNode ::
  "resource \<Rightarrow> 16 word \<Rightarrow> 16 word \<Rightarrow> 16 word \<Rightarrow> ledgerSystem" where
  "emptyNode r nTotal nSystem nWatermark =
     \<lparr>sys_resource = r,
      sys_node = \<lparr>n_Total = nTotal, n_System = nSystem, n_Watermark = nWatermark, n_Reserved = 0,
                   n_Buffer = 0, n_CapacityPressure = 0, n_PressureAccountedFor = 0\<rparr>,
      sys_pods = Map.empty,
      sys_otherResources = \<lparr>rawCpu = 0, rawMemory = 0, reservedCpu = 0, reservedMemSlots = 0\<rparr>,
      sys_otherPods = Map.empty\<rparr>"

text \<open>
  Modelled from the spec: the code that carries a change of the non-VM sub-ledger over to
  the node's ledger (the reserve path for non-VM pods and \<open>handleDeletedPod\<close>) is not among
  the source files. The spec: after each addition or subtraction the rounded equivalents
  are recomputed and feed back into \<open>node.Reserved\<close> via the signed delta.
\<close>

definition propagateOther ::
  "16 word \<Rightarrow> 16 word \<Rightarrow> 16 word nodeResourceState \<Rightarrow> 16 word nodeResourceState" where
  "propagateOther old new n = n\<lparr>n_Reserved := n_Reserved n + (new - old)\<rparr>"

text \<open>
  The events. \<open>Placed\<close> is the placement of a VM pod with the ledger extracted from its
  specification. \<open>OtherPlaced\<close> and \<open>OtherDeleted\<close> are the placement and the deletion of
  a non-VM pod, with the configured slot size. \<open>UpdatedConf\<close> is a configuration update.
  Every other event names a VM pod and a handler of the transitioner with its arguments; the
  arguments are arbitrary, so whatever a caller computes before it invokes a handler is
  covered.
\<close>

datatype event =
  Placed string "16 word podResourceState"
  | LastPermit string "16 word"
  | Requested string "16 word" bool "16 word"
  | Deleted string bool
  | AutoscalingDisabled string
  | StartMigration string bool
  | UpdatedLimits string bool "16 word" "16 word"
  | NonAutoscalingUsageChange string "16 word"
  | OtherPlaced string Quantity podOtherResourceState
  | OtherDeleted string Quantity
  | UpdatedConf

definition handleUpdatedConf :: "ledgerSystem \<Rightarrow> panic + ledgerSystem" where
  "handleUpdatedConf s = Inl Todo"

definition applyTo ::
  "string \<Rightarrow> (16 word resourceTransitioner \<Rightarrow> panic + 16 word resourceTransitioner)
     \<Rightarrow> ledgerSystem \<Rightarrow> panic + ledgerSystem" where
  "applyTo k h s =
    (case sys_pods s k of
       None \<Rightarrow> Inr s
     | Some p \<Rightarrow>
         (case h (sys_node s, p) of
            Inl e \<Rightarrow> Inl e
          | Inr (n', p') \<Rightarrow> Inr (s\<lparr>sys_node := n', sys_pods := (sys_pods s)(k \<mapsto> p')\<rparr>)))"

definition otherChanged ::
  "panic + nodeOtherResourceState \<Rightarrow> (string \<rightharpoonup> podOtherResourceState) \<Rightarrow> ledgerSystem
     \<Rightarrow> panic + ledgerSystem" where
  "otherChanged result pods' s =
    (case result of
       Inl e \<Rightarrow> Inl e
     | Inr newState \<Rightarrow>
         Inr (s\<lparr>sys_node := propagateOther (rounded (sys_resource s) (sys_otherResources s))
                                (rounded (sys_resource s) newState) (sys_node s),
                 sys_otherResources := newState,
                 sys_otherPods := pods'\<rparr>))"

text \<open>
  Modelled from the spec: of the entry points that apply an event only \<open>handleVMDeletion\<close>,
  \<open>handlePodDeletion\<close> and \<open>handleUpdatedConf\<close> are among the source files. \<open>Deleted\<close>
  follows \<open>handleVMDeletion\<close> and \<open>OtherDeleted\<close> follows \<open>handlePodDeletion\<close>: an
  unknown pod is logged and nothing changes, a known pod is removed from its table after its
  resources are released (for a non-VM pod by \<open>subPod\<close> and the carry-over to the node, in
  place of \<open>handleDeletedPod\<close>, which is not among the sources). \<open>UpdatedConf\<close> is
  \<open>handleUpdatedConf\<close>, whose body is \<open>panic("todo")\<close>. For the other events the spec:
  the entry point locates the affected node and pod entries, binds a transitioner to one
  node slot and one pod slot and invokes the handler, which mutates both in place;
  placement extracts the pod's ledger and inserts it (\<open>placePod\<close>), for a non-VM pod it
  updates the raw sums (\<open>addPod\<close>) and carries the rounded amount over; "pod is in
  \<open>podMap\<close>" is a precondition, and an already-deleted pod is a benign race that is only
  warned about, so an event on an unknown pod leaves the state as it is, and so does the
  placement of a pod that is already known. A panic ends the run.
\<close>

fun step :: "(Quantity \<Rightarrow> 64 word) \<Rightarrow> event \<Rightarrow> ledgerSystem \<Rightarrow> panic + ledgerSystem" where
  "step Value (Placed k p) s =
     (case sys_pods s k of
        Some p' \<Rightarrow> Inr s
      | None \<Rightarrow>
          (case placePod (sys_node s, p) of
             (n', p') \<Rightarrow> Inr (s\<lparr>sys_node := n', sys_pods := (sys_pods s)(k \<mapsto> p')\<rparr>)))"
| "step Value (LastPermit k lastPermit) s =
     applyTo k (\<lambda>r. Inr (handleLastPermit lastPermit r)) s"
| "step Value (Requested k requested startingMigration factor) s =
     applyTo k (handleRequested requested startingMigration factor) s"
| "step Value (Deleted k migrating) s =
     (case applyTo k (\<lambda>r. Inr (handleDeleted migrating r)) s of
        Inl e \<Rightarrow> Inl e
      | Inr s' \<Rightarrow> Inr (s'\<lparr>sys_pods := (sys_pods s')(k := None)\<rparr>))"
| "step Value (AutoscalingDisabled k) s = applyTo k (\<lambda>r. Inr (handleAutoscalingDisabled r)) s"
| "step Value (StartMigration k source) s =
     applyTo k (\<lambda>r. Inr (handleStartMigration source r)) s"
| "step Value (UpdatedLimits k receivedContact newMin newMax) s =
     applyTo k (\<lambda>r. Inr (handleUpdatedLimits r receivedContact newMin newMax)) s"
| "step Value (NonAutoscalingUsageChange k newUsage) s =
     applyTo k (\<lambda>r. Inr (handleNonAutoscalingUsageChange newUsage r)) s"
| "step Value (OtherPlaced k memSlotSize p) s =
     (case sys_otherPods s k of
        Some p' \<Rightarrow> Inr s
      | None \<Rightarrow>
          otherChanged (addPod Value (sys_otherResources s) memSlotSize p)
            ((sys_otherPods s)(k \<mapsto> p)) s)"
| "step Value (OtherDeleted k memSlotSize) s =
     (case sys_otherPods s k of
        None \<Rightarrow> Inr s
      | Some p \<Rightarrow>
          otherChanged (subPod Value (sys_otherResources s) memSlotSize p)
            ((sys_otherPods s)(k := None)) s)"
| "step Value UpdatedConf s = handleUpdatedConf s"

fun run :: "(Quantity \<Rightarrow> 64 word) \<Rightarrow> event list \<Rightarrow> ledgerSystem \<Rightarrow> panic + ledgerSystem" where
  "run Value [] s = Inr s"
| "run Value (e # es) s =
     (case step Value e s of Inl x \<Rightarrow> Inl x | Inr s' \<Rightarrow> run Value es s')"

text \<open>
  What is left to hand out on the node, as a number.
\<close>

definition room :: "ledgerSystem \<Rightarrow> nat" where
  "room s = unat (n_Total (sys_node s)) - unat (n_Reserved (sys_node s))"

text \<open>
  Four kinds of event bring a reservation in from outside the ledger, and the code that
  applies them compares nothing with \<open>Total\<close>: the placement of a VM pod, a change of the
  non-VM pods' rounded amount, a limit update before the pod's agent has made contact that
  changes the maximum, and a usage change of a pod that does not autoscale. Such an event
  \<open>fits\<close> when what it adds to the node's \<open>Reserved\<close> is at most the room left, and the
  ledger it leaves for the pod has its buffer within its reservation. Every other event
  fits as it is.
\<close>

fun fits :: "(Quantity \<Rightarrow> 64 word) \<Rightarrow> event \<Rightarrow> ledgerSystem \<Rightarrow> bool" where
  "fits Value (Placed k p) s =
     (case sys_pods s k of
        Some p' \<Rightarrow> True
      | None \<Rightarrow> p_Buffer p \<le> p_Reserved p \<and> unat (p_Reserved p) \<le> room s)"
| "fits Value (UpdatedLimits k receivedContact newMin newMax) s =
     (case sys_pods s k of
        None \<Rightarrow> True
      | Some p \<Rightarrow>
          (if receivedContact then True
           else if p_Max p = newMax then True
           else unat (Max_util newMax (p_Reserved p - p_Buffer p))
                  \<le> unat (p_Reserved p) + room s))"
| "fits Value (NonAutoscalingUsageChange k newUsage) s =
     (case sys_pods s k of
        None \<Rightarrow> True
      | Some p \<Rightarrow> p_Buffer p \<le> newUsage \<and> unat newUsage \<le> unat (p_Reserved p) + room s)"
| "fits Value (OtherPlaced k memSlotSize p) s =
     (case sys_otherPods s k of
        Some p' \<Rightarrow> True
      | None \<Rightarrow>
          (case addPod Value (sys_otherResources s) memSlotSize p of
             Inl e \<Rightarrow> True
           | Inr newState \<Rightarrow>
               unat (rounded (sys_resource s) newState)
                 \<le> unat (rounded (sys_resource s) (sys_otherResources s)) + room s))"
| "fits Value (OtherDeleted k memSlotSize) s =
     (case sys_otherPods s k of
        None \<Rightarrow> True
      | Some p \<Rightarrow>
          (case subPod Value (sys_otherResources s) memSlotSize p of
             Inl e \<Rightarrow> True
           | Inr newState \<Rightarrow>
               unat (rounded (sys_resource s) newState)
                 \<le> unat (rounded (sys_resource s) (sys_otherResources s)) + room s))"
| "fits Value e s = True"

text \<open>Every event of a run fits the state it is applied to.\<close>

fun fitting :: "(Quantity \<Rightarrow> 64 word) \<Rightarrow> event list \<Rightarrow> ledgerSystem \<Rightarrow> bool" where
  "fitting Value [] s = True"
| "fitting Value (e # es) s =
     (fits Value e s
      \<and> (case step Value e s of Inl x \<Rightarrow> True | Inr s' \<Rightarrow> fitting Value es s'))"

text \<open>
  The books are in order when the node's \<open>Reserved\<close> is the sum of its VM pods'
  \<open>Reserved\<close> and the non-VM pods' rounded amount (as numbers, without wrap-around), does
  not exceed the node's \<open>Total\<close>, and every pod's \<open>Buffer\<close> is part of its \<open>Reserved\<close>.
\<close>

definition conserved :: "ledgerSystem \<Rightarrow> bool" where
  "conserved s \<longleftrightarrow>
     finite (dom (sys_pods s))
     \<and> (\<Sum>k \<in> dom (sys_pods s). unat (p_Reserved (the (sys_pods s k))))
         + unat (rounded (sys_resource s) (sys_otherResources s))
         = unat (n_Reserved (sys_node s))
     \<and> n_Reserved (sys_node s) \<le> n_Total (sys_node s)
     \<and> (\<forall>k \<in> dom (sys_pods s). p_Buffer (the (sys_pods s k)) \<le> p_Reserved (the (sys_pods s k)))"

text \<open>
  Seen from one pod, the books are in order when the pod's buffer is part of its
  reservation, its reservation is part of the node's, and the node's is within the total.
  \<open>others\<close> is what the node has reserved for everything but this pod.
\<close>

definition accounted :: "'a::len word resourceTransitioner \<Rightarrow> bool" where
  "accounted r \<longleftrightarrow>
     (case r of (n, p) \<Rightarrow>
        p_Buffer p \<le> p_Reserved p \<and> p_Reserved p \<le> n_Reserved n \<and> n_Reserved n \<le> n_Total n)"

definition others :: "'a::len word resourceTransitioner \<Rightarrow> nat" where
  "others r = (case r of (n, p) \<Rightarrow> unat (n_Reserved n) - unat (p_Reserved p))"

section \<open>Pressure on a node\<close>

text \<open>
  Claim C1. \<open>tooMuchPressure\<close> is to return false when both ledgers have
  \<open>Reserved \<le> Watermark\<close>, and otherwise true iff
  \<open>max(0, Reserved - Watermark) + CapacityPressure > PressureAccountedFor\<close> for one of the
  resources. The code tests the memory ledger with \<open><\<close> where it tests the vCPU ledger
  with \<open>\<le>\<close>, and computes \<open>Reserved - Watermark\<close> in unsigned 16-bit arithmetic. On a
  node with vCPU reserved 2 of watermark 4 and memory reserved 4 of watermark 4, without any
  capacity pressure, the early return is missed, the vCPU difference wraps to 65534, and
  the function returns true, where the predicate as specified is false.
\<close>

theorem tooMuchPressure_at_watermark:
  "tooMuchPressure
     \<lparr>node_name = ''n'',
      node_vCPU = \<lparr>n_Total = 8, n_System = 1, n_Watermark = 4, n_Reserved = 2, n_Buffer = 0,
                   n_CapacityPressure = 0, n_PressureAccountedFor = 0\<rparr>,
      node_memSlots = \<lparr>n_Total = 8, n_System = 1, n_Watermark = 4, n_Reserved = 4, n_Buffer = 0,
                   n_CapacityPressure = 0, n_PressureAccountedFor = 0\<rparr>,
      otherResources = \<lparr>rawCpu = 0, rawMemory = 0, reservedCpu = 0, reservedMemSlots = 0\<rparr>,
      mq = ()\<rparr>
   \<and> \<not> tooMuchPressure_spec
     \<lparr>node_name = ''n'',
      node_vCPU = \<lparr>n_Total = 8, n_System = 1, n_Watermark = 4, n_Reserved = 2, n_Buffer = 0,
                   n_CapacityPressure = 0, n_PressureAccountedFor = 0\<rparr>,
      node_memSlots = \<lparr>n_Total = 8, n_System = 1, n_Watermark = 4, n_Reserved = 4, n_Buffer = 0,
                   n_CapacityPressure = 0, n_PressureAccountedFor = 0\<rparr>,
      otherResources = \<lparr>rawCpu = 0, rawMemory = 0, reservedCpu = 0, reservedMemSlots = 0\<rparr>,
      mq = ()\<rparr>"
  by code_simp

text \<open>
  The unsigned subtraction alone is enough: with memory above its watermark by what is
  accounted for, and vCPU below its watermark, nothing is over, and the function returns
  true.
\<close>

lemma tooMuchPressure_below_watermark:
  "tooMuchPressure
     \<lparr>node_name = ''n'',
      node_vCPU = \<lparr>n_Total = 8, n_System = 1, n_Watermark = 4, n_Reserved = 2, n_Buffer = 0,
                   n_CapacityPressure = 0, n_PressureAccountedFor = 0\<rparr>,
      node_memSlots = \<lparr>n_Total = 8, n_System = 1, n_Watermark = 4, n_Reserved = 5, n_Buffer = 0,
                   n_CapacityPressure = 0, n_PressureAccountedFor = 1\<rparr>,
      otherResources = \<lparr>rawCpu = 0, rawMemory = 0, reservedCpu = 0, reservedMemSlots = 0\<rparr>,
      mq = ()\<rparr>
   \<and> \<not> tooMuchPressure_spec
     \<lparr>node_name = ''n'',
      node_vCPU = \<lparr>n_Total = 8, n_System = 1, n_Watermark = 4, n_Reserved = 2, n_Buffer = 0,
                   n_CapacityPressure = 0, n_PressureAccountedFor = 0\<rparr>,
      node_memSlots = \<lparr>n_Total = 8, n_System = 1, n_Watermark = 4, n_Reserved = 5, n_Buffer = 0,
                   n_CapacityPressure = 0, n_PressureAccountedFor = 1\<rparr>,
      otherResources = \<lparr>rawCpu = 0, rawMemory = 0, reservedCpu = 0, reservedMemSlots = 0\<rparr>,
      mq = ()\<rparr>"
  by code_simp

section \<open>Requests from the agent\<close>

text \<open>
  Against claim C2 as stated. Scenario S2 on the code: the node has \<open>Total = 8\<close> and \<open>Reserved = 6\<close>, the pod has
  \<open>Reserved = 3\<close> and asks for 6 with factor 1. What is left to hand out is
  \<open>Total - Reserved = 2\<close>, as \<open>totalReservable\<close> is the node's \<open>Total\<close> and \<open>System\<close> is not
  read: the pod is granted 5, the node reaches 8, and one unit is recorded as capacity
  pressure on both. The values 4, 7, 2 and 2 are not what the call returns.
\<close>

theorem handleRequested_S2_counterexample:
  "handleRequested 6 False 1
     (\<lparr>n_Total = 8, n_System = 1, n_Watermark = 6, n_Reserved = 6, n_Buffer = 0,
        n_CapacityPressure = 0, n_PressureAccountedFor = 0\<rparr>,
      \<lparr>p_Reserved = 3, p_Buffer = 0, p_CapacityPressure = 0, p_Min = 1, p_Max = 8\<rparr>)
   = (Inr (\<lparr>n_Total = 8, n_System = 1, n_Watermark = 6, n_Reserved = 8, n_Buffer = 0,
              n_CapacityPressure = 1, n_PressureAccountedFor = 0\<rparr>,
           \<lparr>p_Reserved = 5, p_Buffer = 0, p_CapacityPressure = 1, p_Min = 1, p_Max = 8\<rparr>)
      :: panic + 16 word resourceTransitioner)"
  by (simp add: handleRequested_def registerTail_def SaturatingSub_def Let_def)

text \<open>
  Claim C2, amended. Whatever the other fields of the two ledgers are: from a node with
  \<open>Total = 8\<close>, \<open>Reserved = 6\<close> and no capacity pressure and a pod with \<open>Reserved = 3\<close> and
  no capacity pressure, \<open>handleRequested(6, false, 1)\<close> yields \<open>pod.Reserved = 5\<close>,
  \<open>node.Reserved = 8\<close>, \<open>pod.CapacityPressure = 1\<close> and \<open>node.CapacityPressure = 1\<close>: the
  largest increase granted is \<open>Total - node.Reserved = 8 - 6 = 2\<close>. The pod's buffer is
  cleared on the way.
\<close>

theorem handleRequested_S2:
  fixes n :: "16 word nodeResourceState"
  shows "handleRequested 6 False 1
     (n\<lparr>n_Total := 8, n_Reserved := 6, n_CapacityPressure := 0\<rparr>,
      p\<lparr>p_Reserved := 3, p_CapacityPressure := 0\<rparr>)
   = Inr (n\<lparr>n_Total := 8, n_Reserved := 8, n_CapacityPressure := 1,
             n_Buffer := n_Buffer n - p_Buffer p\<rparr>,
          p\<lparr>p_Reserved := 5, p_CapacityPressure := 1, p_Buffer := 0\<rparr>)"
  by (simp add: handleRequested_def registerTail_def SaturatingSub_def Let_def)

theorem handleRequested_S2_witness:
  "handleRequested 6 False 1
     (\<lparr>n_Total = 8, n_System = 1, n_Watermark = 6, n_Reserved = 6, n_Buffer = 2,
        n_CapacityPressure = 0, n_PressureAccountedFor = 0\<rparr>,
      \<lparr>p_Reserved = 3, p_Buffer = 2, p_CapacityPressure = 0, p_Min = 1, p_Max = 8\<rparr>)
   = (Inr (\<lparr>n_Total = 8, n_System = 1, n_Watermark = 6, n_Reserved = 8, n_Buffer = 0,
              n_CapacityPressure = 1, n_PressureAccountedFor = 0\<rparr>,
           \<lparr>p_Reserved = 5, p_Buffer = 0, p_CapacityPressure = 1, p_Min = 1, p_Max = 8\<rparr>)
      :: panic + 16 word resourceTransitioner)"
  using handleRequested_S2
          [of "\<lparr>n_Total = 8, n_System = 1, n_Watermark = 6, n_Reserved = 6, n_Buffer = 2,
                n_CapacityPressure = 0, n_PressureAccountedFor = 0\<rparr>"
              "\<lparr>p_Reserved = 3, p_Buffer = 2, p_CapacityPressure = 0, p_Min = 1, p_Max = 8\<rparr>"]
  by simp

text \<open>Rounding down to a multiple of the factor, read as numbers.\<close>

lemma unat_round_down:
  fixes r f :: "'a::len word"
  shows "unat (r div f * f) = unat r div unat f * unat f"
proof -
  have "unat r div unat f * unat f \<le> unat r" by simp
  also have "\<dots> < 2 ^ LENGTH('a)" by (rule unsigned_less)
  finally have "unat (r div f) * unat f < 2 ^ LENGTH('a)" by (simp add: unat_div)
  then have "unat (r div f * f) = unat (r div f) * unat f" by (simp add: unat_mult_lem)
  then show ?thesis by (simp add: unat_div)
qed

text \<open>
  Claim C3. On the increase path every change of \<open>pod.Reserved\<close> is to be a non-negative
  multiple of \<open>factor\<close>, as the function's own comment requires of any permitted increase.
  The code rounds only the cap \<open>maxIncrease\<close> down to a multiple of the factor and applies
  an increase below the cap unrounded: on a node with 13 units left, a pod at 3 that asks for
  5 with factor 4 is granted 2, which is not a multiple of 4.
\<close>

theorem handleRequested_uncapped_increase:
  "handleRequested 5 False 4
     (\<lparr>n_Total = 16, n_System = 1, n_Watermark = 12, n_Reserved = 3, n_Buffer = 0,
        n_CapacityPressure = 0, n_PressureAccountedFor = 0\<rparr>,
      \<lparr>p_Reserved = 3, p_Buffer = 0, p_CapacityPressure = 0, p_Min = 1, p_Max = 8\<rparr>)
   = (Inr (\<lparr>n_Total = 16, n_System = 1, n_Watermark = 12, n_Reserved = 5, n_Buffer = 0,
              n_CapacityPressure = 0, n_PressureAccountedFor = 0\<rparr>,
           \<lparr>p_Reserved = 5, p_Buffer = 0, p_CapacityPressure = 0, p_Min = 1, p_Max = 8\<rparr>)
      :: panic + 16 word resourceTransitioner)
   \<and> \<not> unat (4 :: 16 word) dvd unat (5 - 3 :: 16 word)"
  by (simp add: handleRequested_def registerTail_def SaturatingSub_def Let_def)

text \<open>
  The increase path in general: with a factor above zero the call returns, \<open>pod.Reserved\<close>
  does not decrease, and it grows by the smaller of \<open>requested - pod.Reserved\<close> and
  \<open>maxIncrease\<close>. The growth is a multiple of the factor where the cap applies; below the
  cap it is one only if the requested difference happens to be.
\<close>

lemma handleRequested_increase_effect:
  fixes requested factor :: "'a::len word"
  assumes "factor \<noteq> 0" and "p_Reserved p < requested"
  shows "case handleRequested requested False factor (n, p) of
           Inl e \<Rightarrow> False
         | Inr (n', p') \<Rightarrow>
             (let increase = requested - p_Reserved p;
                  maxIncrease = SaturatingSub (n_Total n) (n_Reserved n) div factor * factor
              in p_Reserved p \<le> p_Reserved p'
                 \<and> p_Reserved p' - p_Reserved p
                     = (if increase > maxIncrease then maxIncrease else increase)
                 \<and> (increase > maxIncrease \<or> unat factor dvd unat increase
                      \<longrightarrow> unat factor dvd unat (p_Reserved p' - p_Reserved p)))"
proof -
  define increase where "increase = requested - p_Reserved p"
  define maxIncrease
    where "maxIncrease = SaturatingSub (n_Total n) (n_Reserved n) div factor * factor"
  have dv: "unat factor dvd unat maxIncrease"
    by (simp add: maxIncrease_def unat_round_down)
  have le: "p_Reserved p \<le> requested" using assms(2) by simp
  have inc: "p_Reserved p + increase = requested" by (simp add: increase_def)
  have nowrap: "p_Reserved p \<le> p_Reserved p + increase" using le inc by simp
  have capped: "p_Reserved p \<le> p_Reserved p + maxIncrease" if "increase > maxIncrease"
  proof -
    from that have "unat maxIncrease < unat increase" by (simp add: word_less_nat_alt)
    moreover have "unat (p_Reserved p) + unat increase = unat requested"
      using le by (simp add: increase_def unat_sub word_le_nat_alt)
    ultimately have "unat (p_Reserved p) + unat maxIncrease < 2 ^ LENGTH('a)"
      using unsigned_less[of requested, where ?'a = nat] by linarith
    then show ?thesis by (simp add: no_olen_add_nat)
  qed
  show ?thesis
    using assms dv nowrap capped
    by (auto simp: handleRequested_def registerTail_def Let_def
                   increase_def[symmetric] maxIncrease_def[symmetric]
             split: sum.splits prod.splits if_splits)
qed

text \<open>
  Against claim C4 as stated. A notification that repeats the pod's reservation still
  clears a buffer: with a buffer of
  2 on the pod, \<open>pod.Buffer\<close> and \<open>node.Buffer\<close> both change.
\<close>

theorem handleRequested_same_counterexample:
  "handleRequested 3 False 1
     (\<lparr>n_Total = 8, n_System = 1, n_Watermark = 6, n_Reserved = 3, n_Buffer = 2,
        n_CapacityPressure = 0, n_PressureAccountedFor = 0\<rparr>,
      \<lparr>p_Reserved = 3, p_Buffer = 2, p_CapacityPressure = 0, p_Min = 1, p_Max = 3\<rparr>)
   = (Inr (\<lparr>n_Total = 8, n_System = 1, n_Watermark = 6, n_Reserved = 3, n_Buffer = 0,
              n_CapacityPressure = 0, n_PressureAccountedFor = 0\<rparr>,
           \<lparr>p_Reserved = 3, p_Buffer = 0, p_CapacityPressure = 0, p_Min = 1, p_Max = 3\<rparr>)
      :: panic + 16 word resourceTransitioner)"
  by (simp add: handleRequested_def registerTail_def SaturatingSub_def Let_def)

text \<open>
  Claim C4, amended. \<open>handleRequested\<close> with \<open>requested = pod.Reserved\<close> and no migration
  starting returns, for any factor, and leaves every field of both ledgers as it was except
  four: \<open>pod.CapacityPressure\<close> is cleared and \<open>node.CapacityPressure\<close> is reduced by its
  prior value, and \<open>pod.Buffer\<close> is cleared and \<open>node.Buffer\<close> is reduced by its prior
  value.
\<close>

theorem handleRequested_same:
  "handleRequested (p_Reserved p) False factor (n, p) =
     Inr (n\<lparr>n_CapacityPressure := n_CapacityPressure n - p_CapacityPressure p,
            n_Buffer := n_Buffer n - p_Buffer p\<rparr>,
          p\<lparr>p_CapacityPressure := 0, p_Buffer := 0\<rparr>)"
  by (auto simp: handleRequested_def registerTail_def Let_def)

theorem handleRequested_same_witness:
  "handleRequested 3 False 1
     (\<lparr>n_Total = 8, n_System = 1, n_Watermark = 6, n_Reserved = 3, n_Buffer = 0,
        n_CapacityPressure = 2, n_PressureAccountedFor = 0\<rparr>,
      \<lparr>p_Reserved = 3, p_Buffer = 0, p_CapacityPressure = 2, p_Min = 1, p_Max = 8\<rparr>)
   = (Inr (\<lparr>n_Total = 8, n_System = 1, n_Watermark = 6, n_Reserved = 3, n_Buffer = 0,
              n_CapacityPressure = 0, n_PressureAccountedFor = 0\<rparr>,
           \<lparr>p_Reserved = 3, p_Buffer = 0, p_CapacityPressure = 0, p_Min = 1, p_Max = 8\<rparr>)
      :: panic + 16 word resourceTransitioner)"
  using handleRequested_same
          [of "\<lparr>p_Reserved = 3, p_Buffer = 0, p_CapacityPressure = 2, p_Min = 1, p_Max = 8\<rparr>"
              "1 :: 16 word"
              "\<lparr>n_Total = 8, n_System = 1, n_Watermark = 6, n_Reserved = 3, n_Buffer = 0,
                n_CapacityPressure = 2, n_PressureAccountedFor = 0\<rparr>"]
  by simp

section \<open>Non-VM pods\<close>

text \<open>The conversion \<open>uint16(-1)\<close>.\<close>

lemma uint16_of_minus_one: "(ucast (- 1 :: 64 word) :: 16 word) = 65535"
  by code_simp

text \<open>
  Claim C5. \<open>subPod\<close> is to panic whenever the subtraction would go below zero. Its second
  guard compares the node's raw memory with itself, so it never fires: taking a pod with raw
  memory 2 from a node with raw memory 1 (slot size 1) does not panic; the result carries
  raw memory -1, and 65535 reserved memory slots after the conversion to 16 bits. The
  amounts involved are the integers 1 and -1, which \<open>Value()\<close> returns as they are.
\<close>

theorem subPod_memory_guard:
  assumes "Value 1 = 1" and "Value (- 1) = - 1"
  shows "subPod Value \<lparr>rawCpu = 1, rawMemory = 1, reservedCpu = 1, reservedMemSlots = 1\<rparr> 1
          \<lparr>pod_rawCpu = 0, pod_rawMemory = 2\<rparr>
     = Inr \<lparr>rawCpu = 1, rawMemory = - 1, reservedCpu = 1, reservedMemSlots = 65535\<rparr>"
  using assms
  by (simp add: subPod_def calculateReserved_def Cmp_def int64_div_def Let_def
                uint16_of_minus_one)

text \<open>The same with rounding up to the next integer for \<open>Value()\<close>.\<close>

theorem subPod_memory_guard_witness:
  "(\<lambda>q :: Quantity. word_of_int \<lceil>q\<rceil> :: 64 word) 1 = 1
   \<and> (\<lambda>q :: Quantity. word_of_int \<lceil>q\<rceil> :: 64 word) (- 1) = - 1
   \<and> subPod (\<lambda>q. word_of_int \<lceil>q\<rceil>)
          \<lparr>rawCpu = 1, rawMemory = 1, reservedCpu = 1, reservedMemSlots = 1\<rparr> 1
          \<lparr>pod_rawCpu = 0, pod_rawMemory = 2\<rparr>
     = Inr \<lparr>rawCpu = 1, rawMemory = - 1, reservedCpu = 1, reservedMemSlots = 65535\<rparr>"
proof -
  have one: "(\<lambda>q :: Quantity. word_of_int \<lceil>q\<rceil> :: 64 word) 1 = 1" by simp
  have minus_one: "(\<lambda>q :: Quantity. word_of_int \<lceil>q\<rceil> :: 64 word) (- 1) = - 1"
    by code_simp
  show ?thesis
    using one minus_one subPod_memory_guard [OF one minus_one] by (simp only: simp_thms)
qed

text \<open>
  The CPU guard does fire, and no input makes the memory guard fire, whatever \<open>Value()\<close>
  returns.
\<close>

lemma subPod_UnderflowCpu:
  "rawCpu r < pod_rawCpu p \<Longrightarrow> subPod Value r m p = Inl UnderflowCpu"
  by (simp add: subPod_def Cmp_def)

lemma subPod_never_UnderflowMemory: "subPod Value r m p \<noteq> Inl UnderflowMemory"
  by (auto simp: subPod_def calculateReserved_def Cmp_def Let_def)

section \<open>Replaying the last permit\<close>

text \<open>
  Claim C6. If \<open>lastPermit \<le> pod.Reserved\<close>, then after \<open>handleLastPermit(lastPermit)\<close>
  \<open>pod.Reserved\<close> is \<open>lastPermit\<close>, \<open>node.Reserved\<close> is reduced by
  \<open>pod.Reserved - lastPermit\<close>, \<open>pod.Buffer\<close> is zero and \<open>node.Buffer\<close> is reduced by the
  pod's prior buffer, and no other field changes; if \<open>lastPermit > pod.Reserved\<close>, nothing
  changes. In particular (on 16-bit ledgers) a pod with \<open>Reserved = 5\<close> and \<open>Buffer = 2\<close>
  ends, after \<open>handleLastPermit(3)\<close>, with \<open>Reserved = 3\<close> and \<open>Buffer = 0\<close>, and the node's
  \<open>Reserved\<close> and \<open>Buffer\<close> are both reduced by 2.
\<close>

theorem handleLastPermit_effect:
  fixes n :: "'a::len word nodeResourceState" and q :: "16 word podResourceState"
  shows "(lastPermit \<le> p_Reserved p \<longrightarrow>
            handleLastPermit lastPermit (n, p) =
              (n\<lparr>n_Reserved := n_Reserved n - (p_Reserved p - lastPermit),
                 n_Buffer := n_Buffer n - p_Buffer p\<rparr>,
               p\<lparr>p_Reserved := lastPermit, p_Buffer := 0\<rparr>))
       \<and> (p_Reserved p < lastPermit \<longrightarrow> handleLastPermit lastPermit (n, p) = (n, p))
       \<and> (p_Reserved q = 5 \<and> p_Buffer q = 2 \<longrightarrow>
            (case handleLastPermit 3 (m, q) of (m', q') \<Rightarrow>
               p_Reserved q' = 3 \<and> p_Buffer q' = 0
               \<and> n_Reserved m' = n_Reserved m - 2 \<and> n_Buffer m' = n_Buffer m - 2))"
  by (auto simp: handleLastPermit_def Let_def)

text \<open>
  Scenario S5 (permit 3 against a reservation of 5 with buffer 2), and a permit of 7 against
  the same pod, which is above its reservation.
\<close>

theorem handleLastPermit_effect_witness:
  "(3 :: 16 word) \<le> 5 \<and> (5 :: 16 word) < 7
   \<and> handleLastPermit 3
       (\<lparr>n_Total = 8, n_System = 1, n_Watermark = 6, n_Reserved = 5, n_Buffer = 2,
          n_CapacityPressure = 0, n_PressureAccountedFor = 0\<rparr>,
        \<lparr>p_Reserved = 5, p_Buffer = 2, p_CapacityPressure = 0, p_Min = 1, p_Max = 5\<rparr>)
     = (\<lparr>n_Total = 8, n_System = 1, n_Watermark = 6, n_Reserved = 3, n_Buffer = 0,
          n_CapacityPressure = 0, n_PressureAccountedFor = 0\<rparr>,
        \<lparr>p_Reserved = 3, p_Buffer = 0, p_CapacityPressure = 0, p_Min = 1, p_Max = 5 :: 16 word\<rparr>)
   \<and> handleLastPermit 7
       (\<lparr>n_Total = 8, n_System = 1, n_Watermark = 6, n_Reserved = 5, n_Buffer = 2,
          n_CapacityPressure = 0, n_PressureAccountedFor = 0\<rparr>,
        \<lparr>p_Reserved = 5, p_Buffer = 2, p_CapacityPressure = 0, p_Min = 1, p_Max = 5\<rparr>)
     = (\<lparr>n_Total = 8, n_System = 1, n_Watermark = 6, n_Reserved = 5, n_Buffer = 2,
          n_CapacityPressure = 0, n_PressureAccountedFor = 0\<rparr>,
        \<lparr>p_Reserved = 5, p_Buffer = 2, p_CapacityPressure = 0, p_Min = 1, p_Max = 5 :: 16 word\<rparr>)"
  using handleLastPermit_effect
          [of 3 "\<lparr>p_Reserved = 5, p_Buffer = 2, p_CapacityPressure = 0, p_Min = 1, p_Max = 5 :: 16 word\<rparr>"
              "\<lparr>n_Total = 8, n_System = 1, n_Watermark = 6, n_Reserved = 5, n_Buffer = 2,
                n_CapacityPressure = 0, n_PressureAccountedFor = 0\<rparr>"
              "\<lparr>p_Reserved = 5, p_Buffer = 2, p_CapacityPressure = 0, p_Min = 1, p_Max = 5\<rparr>"]
        handleLastPermit_effect
          [of 7 "\<lparr>p_Reserved = 5, p_Buffer = 2, p_CapacityPressure = 0, p_Min = 1, p_Max = 5 :: 16 word\<rparr>"
              "\<lparr>n_Total = 8, n_System = 1, n_Watermark = 6, n_Reserved = 5, n_Buffer = 2,
                n_CapacityPressure = 0, n_PressureAccountedFor = 0\<rparr>"
              "\<lparr>p_Reserved = 5, p_Buffer = 2, p_CapacityPressure = 0, p_Min = 1, p_Max = 5\<rparr>"]
  by simp

section \<open>Placing, migrating and deleting a pod\<close>

text \<open>
  Claim C7. For every node ledger and pod ledger: placing the pod and then deleting it
  (\<open>handleDeleted\<close>, not migrating) leaves the node's \<open>Reserved\<close>, \<open>Buffer\<close> and
  \<open>CapacityPressure\<close> at their values from before the placement; so does placing,
  \<open>handleStartMigration\<close> and then \<open>handleDeleted\<close> of the migrating pod, and then
  \<open>PressureAccountedFor\<close> is back at its value from before \<open>handleStartMigration\<close>.
  All arithmetic is the code's wrapping unsigned arithmetic.
\<close>

theorem place_delete_roundtrip:
  "(case handleDeleted False (placePod (n, p)) of (n', p') \<Rightarrow>
      n_Reserved n' = n_Reserved n \<and> n_Buffer n' = n_Buffer n
      \<and> n_CapacityPressure n' = n_CapacityPressure n)
   \<and> (case handleDeleted True (handleStartMigration source (placePod (n, p))) of (n', p') \<Rightarrow>
      n_Reserved n' = n_Reserved n \<and> n_Buffer n' = n_Buffer n
      \<and> n_CapacityPressure n' = n_CapacityPressure n
      \<and> n_PressureAccountedFor n' = n_PressureAccountedFor (fst (placePod (n, p))))"
  by (simp add: handleDeleted_def placePod_def handleStartMigration_def valuesToReduce_def Let_def)

text \<open>A pod with 5 reserved, 2 of them buffer, on a node that has 3 reserved and 1 buffered.\<close>

theorem place_delete_roundtrip_witness:
  "n_Reserved (fst (handleDeleted False (placePod
       (\<lparr>n_Total = 8, n_System = 1, n_Watermark = 6, n_Reserved = 3, n_Buffer = 1,
          n_CapacityPressure = 0, n_PressureAccountedFor = 0\<rparr>,
        \<lparr>p_Reserved = 5, p_Buffer = 2, p_CapacityPressure = 0, p_Min = 1, p_Max = 5\<rparr>))))
     = (3 :: 16 word)
   \<and> n_Buffer (fst (handleDeleted False (placePod
       (\<lparr>n_Total = 8, n_System = 1, n_Watermark = 6, n_Reserved = 3, n_Buffer = 1,
          n_CapacityPressure = 0, n_PressureAccountedFor = 0\<rparr>,
        \<lparr>p_Reserved = 5, p_Buffer = 2, p_CapacityPressure = 0, p_Min = 1, p_Max = 5\<rparr>))))
     = (1 :: 16 word)
   \<and> n_Reserved (fst (handleDeleted True (handleStartMigration True (placePod
       (\<lparr>n_Total = 8, n_System = 1, n_Watermark = 6, n_Reserved = 3, n_Buffer = 1,
          n_CapacityPressure = 0, n_PressureAccountedFor = 0\<rparr>,
        \<lparr>p_Reserved = 5, p_Buffer = 2, p_CapacityPressure = 0, p_Min = 1, p_Max = 5\<rparr>)))))
     = (3 :: 16 word)
   \<and> n_Buffer (fst (handleDeleted True (handleStartMigration True (placePod
       (\<lparr>n_Total = 8, n_System = 1, n_Watermark = 6, n_Reserved = 3, n_Buffer = 1,
          n_CapacityPressure = 0, n_PressureAccountedFor = 0\<rparr>,
        \<lparr>p_Reserved = 5, p_Buffer = 2, p_CapacityPressure = 0, p_Min = 1, p_Max = 5\<rparr>)))))
     = (1 :: 16 word)
   \<and> n_PressureAccountedFor (fst (handleDeleted True (handleStartMigration True (placePod
       (\<lparr>n_Total = 8, n_System = 1, n_Watermark = 6, n_Reserved = 3, n_Buffer = 1,
          n_CapacityPressure = 0, n_PressureAccountedFor = 0\<rparr>,
        \<lparr>p_Reserved = 5, p_Buffer = 2, p_CapacityPressure = 0, p_Min = 1, p_Max = 5\<rparr>)))))
     = (0 :: 16 word)"
  using place_delete_roundtrip
          [of "\<lparr>n_Total = 8, n_System = 1, n_Watermark = 6, n_Reserved = 3, n_Buffer = 1,
                n_CapacityPressure = 0, n_PressureAccountedFor = 0 :: 16 word\<rparr>"
              "\<lparr>p_Reserved = 5, p_Buffer = 2, p_CapacityPressure = 0, p_Min = 1, p_Max = 5\<rparr>" True]
  by (simp add: case_prod_beta placePod_def)

section \<open>Starting a migration\<close>

text \<open>
  What \<open>handleStartMigration\<close> does to one pair of ledgers: the update of
  \<open>handleAutoscalingDisabled\<close>, and then the pod's resulting \<open>Reserved\<close> is added to the
  node's \<open>PressureAccountedFor\<close>.
\<close>

lemma handleStartMigration_effect:
  "handleStartMigration source (n, p) =
     (n\<lparr>n_Reserved := n_Reserved n - p_Buffer p, n_Buffer := n_Buffer n - p_Buffer p,
        n_CapacityPressure := n_CapacityPressure n - p_CapacityPressure p,
        n_PressureAccountedFor := n_PressureAccountedFor n + (p_Reserved p - p_Buffer p)\<rparr>,
      p\<lparr>p_Reserved := p_Reserved p - p_Buffer p, p_Buffer := 0, p_CapacityPressure := 0\<rparr>)"
  by (simp add: handleStartMigration_def valuesToReduce_def Let_def)

lemma handleStartMigration_eq:
  "handleStartMigration source r =
     (case handleAutoscalingDisabled r of (n, p) \<Rightarrow>
        (n\<lparr>n_PressureAccountedFor := n_PressureAccountedFor n + p_Reserved p\<rparr>, p))"
  by (simp add: handleStartMigration_def handleAutoscalingDisabled_def Let_def split: prod.splits)

text \<open>
  Claim C9. Starting a migration is to apply that update to the vCPU and to the memory
  ledger. \<open>startMigration\<close> does not call \<open>handleStartMigration\<close>: for a pod with 3 vCPU
  reserved and 1 denied, and 2 memory slots reserved, it adds \<open>reserved + capacityPressure
  = 4\<close> to the node's vCPU \<open>pressureAccountedFor\<close> (the update of the claim adds 3 and
  clears the pressure of 1 on pod and node), and it leaves the memory ledgers of pod and
  node as they were (the update of the claim adds 2 to the node's
  \<open>pressureAccountedFor\<close>). This holds whatever the queue's \<open>removeIfPresent\<close> does.
\<close>

theorem startMigration_vCPU_only:
  "case startMigration removeIfPresent
     \<lparr>pod_name = ''a'',
      pod_vCPU = \<lparr>p_Reserved = 3, p_Buffer = 0, p_CapacityPressure = 1, p_Min = 1, p_Max = 4\<rparr>,
      pod_memSlots = \<lparr>p_Reserved = 2, p_Buffer = 0, p_CapacityPressure = 0, p_Min = 1, p_Max = 4\<rparr>,
      mqIndex = - 1, migrationState = None\<rparr>
     \<lparr>node_name = ''n'',
      node_vCPU = \<lparr>n_Total = 8, n_System = 1, n_Watermark = 6, n_Reserved = 3, n_Buffer = 0,
                   n_CapacityPressure = 1, n_PressureAccountedFor = 0\<rparr>,
      node_memSlots = \<lparr>n_Total = 8, n_System = 1, n_Watermark = 6, n_Reserved = 2, n_Buffer = 0,
                   n_CapacityPressure = 0, n_PressureAccountedFor = 0\<rparr>,
      otherResources = \<lparr>rawCpu = 0, rawMemory = 0, reservedCpu = 0, reservedMemSlots = 0\<rparr>,
      mq = q\<rparr>
   of (e, pod', node') \<Rightarrow>
     e = MigrationUnimplemented
     \<and> migrationState pod' = Some PodMigrationState
     \<and> pod_vCPU pod'
         = \<lparr>p_Reserved = 3, p_Buffer = 0, p_CapacityPressure = 1, p_Min = 1, p_Max = 4\<rparr>
     \<and> pod_memSlots pod'
         = \<lparr>p_Reserved = 2, p_Buffer = 0, p_CapacityPressure = 0, p_Min = 1, p_Max = 4\<rparr>
     \<and> node_vCPU node'
         = \<lparr>n_Total = 8, n_System = 1, n_Watermark = 6, n_Reserved = 3, n_Buffer = 0,
            n_CapacityPressure = 1, n_PressureAccountedFor = 4\<rparr>
     \<and> node_memSlots node'
         = \<lparr>n_Total = 8, n_System = 1, n_Watermark = 6, n_Reserved = 2, n_Buffer = 0,
            n_CapacityPressure = 0, n_PressureAccountedFor = 0\<rparr>"
  by (simp add: startMigration_def currentlyMigrating_def Let_def split: prod.splits)

text \<open>
  Claim C10. Called for a pod whose \<open>migrationState\<close> is not nil, \<open>startMigration\<close>
  returns the error "already migrating" and changes nothing: the pod (its migration state
  and queue index included) and the node (its queue and every ledger field included) are
  returned as they were, whatever the queue's \<open>removeIfPresent\<close> would do.
\<close>

theorem startMigration_already_migrating:
  "migrationState pod \<noteq> None \<Longrightarrow>
     startMigration removeIfPresent pod node = (AlreadyMigrating, pod, node)"
  by (simp add: startMigration_def currentlyMigrating_def)

theorem startMigration_already_migrating_witness:
  "migrationState \<lparr>pod_name = ''a'',
      pod_vCPU = \<lparr>p_Reserved = 3, p_Buffer = 0, p_CapacityPressure = 1, p_Min = 1, p_Max = 4\<rparr>,
      pod_memSlots = \<lparr>p_Reserved = 2, p_Buffer = 0, p_CapacityPressure = 0, p_Min = 1, p_Max = 4\<rparr>,
      mqIndex = - 1, migrationState = Some PodMigrationState\<rparr> \<noteq> None
  \<and> startMigration (\<lambda>q p. (remove1 (pod_name p) q, - 1))
     \<lparr>pod_name = ''a'',
      pod_vCPU = \<lparr>p_Reserved = 3, p_Buffer = 0, p_CapacityPressure = 1, p_Min = 1, p_Max = 4\<rparr>,
      pod_memSlots = \<lparr>p_Reserved = 2, p_Buffer = 0, p_CapacityPressure = 0, p_Min = 1, p_Max = 4\<rparr>,
      mqIndex = - 1, migrationState = Some PodMigrationState\<rparr>
     \<lparr>node_name = ''n'',
      node_vCPU = \<lparr>n_Total = 8, n_System = 1, n_Watermark = 6, n_Reserved = 3, n_Buffer = 0,
                   n_CapacityPressure = 1, n_PressureAccountedFor = 4\<rparr>,
      node_memSlots = \<lparr>n_Total = 8, n_System = 1, n_Watermark = 6, n_Reserved = 2, n_Buffer = 0,
                   n_CapacityPressure = 0, n_PressureAccountedFor = 0\<rparr>,
      otherResources = \<lparr>rawCpu = 0, rawMemory = 0, reservedCpu = 0, reservedMemSlots = 0\<rparr>,
      mq = [''b'']\<rparr>
   = (AlreadyMigrating,
     \<lparr>pod_name = ''a'',
      pod_vCPU = \<lparr>p_Reserved = 3, p_Buffer = 0, p_CapacityPressure = 1, p_Min = 1, p_Max = 4\<rparr>,
      pod_memSlots = \<lparr>p_Reserved = 2, p_Buffer = 0, p_CapacityPressure = 0, p_Min = 1, p_Max = 4\<rparr>,
      mqIndex = - 1, migrationState = Some PodMigrationState\<rparr>,
     \<lparr>node_name = ''n'',
      node_vCPU = \<lparr>n_Total = 8, n_System = 1, n_Watermark = 6, n_Reserved = 3, n_Buffer = 0,
                   n_CapacityPressure = 1, n_PressureAccountedFor = 4\<rparr>,
      node_memSlots = \<lparr>n_Total = 8, n_System = 1, n_Watermark = 6, n_Reserved = 2, n_Buffer = 0,
                   n_CapacityPressure = 0, n_PressureAccountedFor = 0\<rparr>,
      otherResources = \<lparr>rawCpu = 0, rawMemory = 0, reservedCpu = 0, reservedMemSlots = 0\<rparr>,
      mq = [''b'']\<rparr>)"
proof -
  have h: "migrationState \<lparr>pod_name = ''a'',
      pod_vCPU = \<lparr>p_Reserved = 3, p_Buffer = 0, p_CapacityPressure = 1, p_Min = 1, p_Max = 4\<rparr>,
      pod_memSlots = \<lparr>p_Reserved = 2, p_Buffer = 0, p_CapacityPressure = 0, p_Min = 1, p_Max = 4\<rparr>,
      mqIndex = - 1, migrationState = Some PodMigrationState\<rparr> \<noteq> None" by simp
  show ?thesis using h startMigration_already_migrating[OF h] by simp
qed

section \<open>No hard overcommit\<close>

text \<open>
  Each handler that grants or releases resources keeps one pod's view of the books in
  order and does not touch what the node has reserved for the other pods.
\<close>

lemma accounted_handleLastPermit:
  assumes "accounted r"
  shows "accounted (handleLastPermit lp r) \<and> others (handleLastPermit lp r) = others r
         \<and> n_Total (fst (handleLastPermit lp r)) = n_Total (fst r)"
proof (cases r)
  case (Pair n p)
  show ?thesis
  proof (cases "lp \<le> p_Reserved p")
    case True
    have a: "p_Reserved p - lp \<le> p_Reserved p" using True by (simp add: word_sub_le)
    have b: "p_Reserved p \<le> n_Reserved n" "n_Reserved n \<le> n_Total n"
      using assms Pair by (simp_all add: accounted_def)
    have c: "unat (n_Reserved n - (p_Reserved p - lp)) = unat (n_Reserved n) - (unat (p_Reserved p) - unat lp)"
      using a b True by (simp add: unat_sub word_le_nat_alt)
    have d: "unat lp \<le> unat (p_Reserved p)" "unat (p_Reserved p) \<le> unat (n_Reserved n)"
        "unat (n_Reserved n) \<le> unat (n_Total n)"
      using True b by (simp_all add: word_le_nat_alt)
    show ?thesis
      using Pair True c d
      by (auto simp: handleLastPermit_def accounted_def others_def Let_def word_le_nat_alt)
  next
    case False
    then show ?thesis using assms Pair by (simp add: handleLastPermit_def)
  qed
qed

lemma registerTail_eq:
  "registerTail (n, p) = (n\<lparr>n_Buffer := n_Buffer n - p_Buffer p\<rparr>, p\<lparr>p_Buffer := 0\<rparr>)"
  by (simp add: registerTail_def Let_def)

lemma accounted_handleRequested:
  assumes "accounted r" and "handleRequested requested sm factor r = Inr r'"
  shows "accounted r' \<and> others r' = others r \<and> n_Total (fst r') = n_Total (fst r)"
proof (cases r)
  case (Pair n p)
  have b: "unat (p_Buffer p) \<le> unat (p_Reserved p)" "unat (p_Reserved p) \<le> unat (n_Reserved n)"
      "unat (n_Reserved n) \<le> unat (n_Total n)"
    using assms(1) Pair by (simp_all add: accounted_def word_le_nat_alt)
  consider (dec) "requested \<le> p_Reserved p"
    | (mig) "\<not> requested \<le> p_Reserved p" "sm"
    | (inc) "\<not> requested \<le> p_Reserved p" "\<not> sm"
    by blast
  then show ?thesis
  proof cases
    case dec
    then have d: "unat requested \<le> unat (p_Reserved p)" by (simp add: word_le_nat_alt)
    have a: "p_Reserved p - requested \<le> n_Reserved n"
      using d b by (simp add: word_le_nat_alt unat_sub dec)
    have c: "unat (n_Reserved n - (p_Reserved p - requested))
               = unat (n_Reserved n) - (unat (p_Reserved p) - unat requested)"
      using a dec by (simp add: unat_sub)
    have r': "r' = (n\<lparr>n_Reserved := n_Reserved n - (p_Reserved p - requested),
                       n_CapacityPressure := n_CapacityPressure n - p_CapacityPressure p,
                       n_Buffer := n_Buffer n - p_Buffer p\<rparr>,
                    p\<lparr>p_Reserved := requested, p_CapacityPressure := 0, p_Buffer := 0\<rparr>)"
      using assms(2) Pair dec by (simp add: handleRequested_def registerTail_eq Let_def)
    show ?thesis
      using b c d by (simp add: r' Pair accounted_def others_def word_le_nat_alt; arith)
  next
    case mig
    then have r': "p_Buffer p = 0 \<and> r' = (n\<lparr>n_CapacityPressure :=
          n_CapacityPressure n + (requested - p_Reserved p) - p_CapacityPressure p\<rparr>,
          p\<lparr>p_CapacityPressure := requested - p_Reserved p\<rparr>)"
      using assms(2) Pair by (simp add: handleRequested_def Let_def split: if_splits)
    show ?thesis
      using b r' by (simp add: Pair accounted_def others_def word_le_nat_alt)
  next
    case inc
    define increase where "increase = requested - p_Reserved p"
    define maxIncrease
      where "maxIncrease = SaturatingSub (n_Total n) (n_Reserved n) div factor * factor"
    define granted where "granted = (if increase > maxIncrease then maxIncrease else increase)"
    have f0: "factor \<noteq> 0"
      using assms(2) Pair inc by (auto simp: handleRequested_def Let_def split: if_splits)
    have lt: "unat (p_Reserved p) < unat requested"
      using inc by (simp add: word_le_nat_alt)
    have ui: "unat increase = unat requested - unat (p_Reserved p)"
      using lt by (simp add: increase_def unat_sub word_le_nat_alt)
    have "unat (SaturatingSub (n_Total n) (n_Reserved n)) = unat (n_Total n) - unat (n_Reserved n)"
      using b by (auto simp: SaturatingSub_def unat_sub word_le_nat_alt word_less_nat_alt)
    then have um: "unat maxIncrease \<le> unat (n_Total n) - unat (n_Reserved n)"
      by (simp add: maxIncrease_def unat_round_down)
    have ug: "unat granted \<le> unat increase" "unat granted \<le> unat maxIncrease"
      by (auto simp: granted_def word_less_nat_alt)
    have lim: "unat requested < 2 ^ LENGTH('a)" "unat (n_Total n) < 2 ^ LENGTH('a)"
      by (rule unsigned_less)+
    have "unat (p_Reserved p) + unat granted < 2 ^ LENGTH('a)"
      using ug ui lt lim(1) by linarith
    then have pg: "unat (p_Reserved p + granted) = unat (p_Reserved p) + unat granted"
      by (simp only: unat_add_lem[THEN iffD1])
    have "unat (n_Reserved n) + unat granted < 2 ^ LENGTH('a)"
      using ug um b lim(2) by linarith
    then have ng: "unat (n_Reserved n + granted) = unat (n_Reserved n) + unat granted"
      by (simp only: unat_add_lem[THEN iffD1])
    have r': "n_Total (fst r') = n_Total n \<and> n_Reserved (fst r') = n_Reserved n + granted
               \<and> p_Reserved (snd r') = p_Reserved p + granted \<and> p_Buffer (snd r') = 0"
      using assms(2) Pair inc f0
      by (auto simp: handleRequested_def registerTail_eq Let_def granted_def
                     increase_def maxIncrease_def split: if_splits)
    show ?thesis
      using b pg ng ug um r'
      by (cases r') (simp add: Pair accounted_def others_def word_le_nat_alt)
  qed
qed

lemma accounted_handleAutoscalingDisabled:
  assumes "accounted r"
  shows "accounted (handleAutoscalingDisabled r)
         \<and> others (handleAutoscalingDisabled r) = others r
         \<and> n_Total (fst (handleAutoscalingDisabled r)) = n_Total (fst r)"
proof (cases r)
  case (Pair n p)
  have b: "unat (p_Buffer p) \<le> unat (p_Reserved p)" "unat (p_Reserved p) \<le> unat (n_Reserved n)"
      "unat (n_Reserved n) \<le> unat (n_Total n)"
    using assms(1) Pair by (simp_all add: accounted_def word_le_nat_alt)
  have c: "unat (n_Reserved n - p_Buffer p) = unat (n_Reserved n) - unat (p_Buffer p)"
      "unat (p_Reserved p - p_Buffer p) = unat (p_Reserved p) - unat (p_Buffer p)"
    using b by (simp_all add: unat_sub word_le_nat_alt)
  show ?thesis
    using b c
    by (simp add: Pair handleAutoscalingDisabled_def valuesToReduce_def Let_def
                  accounted_def others_def word_le_nat_alt; arith)
qed

lemma accounted_handleStartMigration:
  assumes "accounted r"
  shows "accounted (handleStartMigration source r)
         \<and> others (handleStartMigration source r) = others r
         \<and> n_Total (fst (handleStartMigration source r)) = n_Total (fst r)"
proof (cases r)
  case (Pair n p)
  have b: "unat (p_Buffer p) \<le> unat (p_Reserved p)" "unat (p_Reserved p) \<le> unat (n_Reserved n)"
      "unat (n_Reserved n) \<le> unat (n_Total n)"
    using assms(1) Pair by (simp_all add: accounted_def word_le_nat_alt)
  have c: "unat (n_Reserved n - p_Buffer p) = unat (n_Reserved n) - unat (p_Buffer p)"
      "unat (p_Reserved p - p_Buffer p) = unat (p_Reserved p) - unat (p_Buffer p)"
    using b by (simp_all add: unat_sub word_le_nat_alt)
  show ?thesis
    using b c
    by (simp add: Pair handleStartMigration_def valuesToReduce_def Let_def
                  accounted_def others_def word_le_nat_alt; arith)
qed

lemma accounted_handleDeleted:
  assumes "accounted r"
  shows "unat (n_Reserved (fst (handleDeleted migrating r))) = others r
         \<and> n_Reserved (fst (handleDeleted migrating r)) \<le> n_Total (fst (handleDeleted migrating r))"
proof (cases r)
  case (Pair n p)
  have b: "unat (p_Buffer p) \<le> unat (p_Reserved p)" "unat (p_Reserved p) \<le> unat (n_Reserved n)"
      "unat (n_Reserved n) \<le> unat (n_Total n)"
    using assms(1) Pair by (simp_all add: accounted_def word_le_nat_alt)
  have c: "unat (n_Reserved n - p_Reserved p) = unat (n_Reserved n) - unat (p_Reserved p)"
    using b by (simp_all add: unat_sub word_le_nat_alt)
  show ?thesis
    using b c
    by (simp add: Pair handleDeleted_def Let_def others_def word_le_nat_alt; arith)
qed

text \<open>
  A handler that raises a reservation from outside information keeps the pod's view in
  order when the raise fits into the room left on the node.
\<close>

lemma unat_add_sub:
  fixes a b c :: "'a::len word"
  assumes "unat c \<le> unat a" and "unat a - unat c + unat b < 2 ^ LENGTH('a)"
  shows "unat (a + b - c) = unat a - unat c + unat b"
proof -
  have "c \<le> a" using assms(1) by (simp add: word_le_nat_alt)
  then have s: "unat (a - c) = unat a - unat c" by (simp add: unat_sub)
  have eq: "a + b - c = (a - c) + b" by simp
  have "unat ((a - c) + b) = unat (a - c) + unat b"
    using assms(2) s by (simp only: unat_add_lem[THEN iffD1])
  then show ?thesis by (simp only: eq s)
qed

lemma accounted_handleUpdatedLimits:
  fixes r :: "'a::len word resourceTransitioner"
  assumes "accounted r"
    and "rc \<or> p_Max (snd r) = mx
         \<or> unat (Max_util mx (p_Reserved (snd r) - p_Buffer (snd r)))
              \<le> unat (p_Reserved (snd r)) + (unat (n_Total (fst r)) - unat (n_Reserved (fst r)))"
  shows "accounted (handleUpdatedLimits r rc mn mx)
         \<and> others (handleUpdatedLimits r rc mn mx) = others r"
proof (cases r)
  case (Pair n p)
  show ?thesis
  proof (cases "rc \<or> p_Max p = mx")
    case True
    then show ?thesis
      using assms(1) Pair by (auto simp: handleUpdatedLimits_def accounted_def others_def Let_def)
  next
    case False
    define usage where "usage = p_Reserved p - p_Buffer p"
    define R where "R = Max_util mx usage"
    have b: "unat (p_Buffer p) \<le> unat (p_Reserved p)" "unat (p_Reserved p) \<le> unat (n_Reserved n)"
        "unat (n_Reserved n) \<le> unat (n_Total n)"
      using assms(1) Pair by (simp_all add: accounted_def word_le_nat_alt)
    have fit: "unat R \<le> unat (p_Reserved p) + (unat (n_Total n) - unat (n_Reserved n))"
      using assms(2) False Pair by (simp add: R_def usage_def)
    have uR: "usage \<le> R" by (simp add: R_def Max_util_def not_less)
    then have bR: "R - usage \<le> R" by (simp add: word_sub_le)
    have lim: "unat (n_Total n) < 2 ^ LENGTH('a)" by (rule unsigned_less)
    have "unat (n_Reserved n) - unat (p_Reserved p) + unat R < 2 ^ LENGTH('a)"
      using fit b lim by linarith
    then have nR: "unat (n_Reserved n + R - p_Reserved p)
                     = unat (n_Reserved n) - unat (p_Reserved p) + unat R"
      using b(2) by (rule unat_add_sub[rotated])
    have res: "handleUpdatedLimits r rc mn mx =
       (n\<lparr>n_Reserved := n_Reserved n + R - p_Reserved p,
          n_Buffer := n_Buffer n + (R - usage) - p_Buffer p\<rparr>,
        p\<lparr>p_Reserved := R, p_Buffer := R - usage, p_Min := mn, p_Max := mx\<rparr>)"
      using False Pair by (auto simp: handleUpdatedLimits_def Let_def R_def usage_def)
    show ?thesis
      unfolding res using b fit nR bR
      by (simp add: Pair accounted_def others_def word_le_nat_alt; arith)
  qed
qed

lemma accounted_handleNonAutoscalingUsageChange:
  fixes r :: "'a::len word resourceTransitioner"
  assumes "accounted r" and "p_Buffer (snd r) \<le> u"
    and "unat u \<le> unat (p_Reserved (snd r)) + (unat (n_Total (fst r)) - unat (n_Reserved (fst r)))"
  shows "accounted (handleNonAutoscalingUsageChange u r)
         \<and> others (handleNonAutoscalingUsageChange u r) = others r"
proof (cases r)
  case (Pair n p)
  have b: "unat (p_Buffer p) \<le> unat (p_Reserved p)" "unat (p_Reserved p) \<le> unat (n_Reserved n)"
      "unat (n_Reserved n) \<le> unat (n_Total n)"
    using assms(1) Pair by (simp_all add: accounted_def word_le_nat_alt)
  have fit: "unat u \<le> unat (p_Reserved p) + (unat (n_Total n) - unat (n_Reserved n))"
    using assms(3) Pair by simp
  have lim: "unat (n_Total n) < 2 ^ LENGTH('a)" by (rule unsigned_less)
  have "unat (n_Reserved n) - unat (p_Reserved p) + unat u < 2 ^ LENGTH('a)"
    using fit b lim by linarith
  then have "unat (n_Reserved n + u - p_Reserved p)
                   = unat (n_Reserved n) - unat (p_Reserved p) + unat u"
    using b(2) by (rule unat_add_sub[rotated])
  moreover have eq: "n_Reserved n + (u - p_Reserved p) = n_Reserved n + u - p_Reserved p" by simp
  ultimately have nR: "unat (n_Reserved n + (u - p_Reserved p))
                   = unat (n_Reserved n) - unat (p_Reserved p) + unat u" by (simp only: eq)
  show ?thesis
    using b fit nR assms(2) Pair
    by (simp add: handleNonAutoscalingUsageChange_def Let_def accounted_def others_def
                  word_le_nat_alt; arith)
qed

text \<open>The same for the whole node: one pod's share against the sum of everything else.\<close>

lemma conserved_pod:
  assumes "conserved s" and "sys_pods s k = Some p"
  shows "accounted (sys_node s, p)"
    and "others (sys_node s, p)
           = (\<Sum>j \<in> dom (sys_pods s) - {k}. unat (p_Reserved (the (sys_pods s j))))
             + unat (rounded (sys_resource s) (sys_otherResources s))"
proof -
  define f where "f = (\<lambda>j. unat (p_Reserved (the (sys_pods s j))))"
  have fin: "finite (dom (sys_pods s))" and k: "k \<in> dom (sys_pods s)"
    using assms by (auto simp: conserved_def)
  have "sum f (dom (sys_pods s)) = f k + sum f (dom (sys_pods s) - {k})"
    using fin k by (rule sum.remove)
  then have split: "unat (n_Reserved (sys_node s))
                      = unat (p_Reserved p) + sum f (dom (sys_pods s) - {k})
                        + unat (rounded (sys_resource s) (sys_otherResources s))"
    using assms by (simp add: conserved_def f_def)
  then show "others (sys_node s, p) = (\<Sum>j \<in> dom (sys_pods s) - {k}. unat (p_Reserved (the (sys_pods s j))))
             + unat (rounded (sys_resource s) (sys_otherResources s))"
    by (simp add: others_def f_def)
  have "p_Buffer (the (sys_pods s k)) \<le> p_Reserved (the (sys_pods s k))"
    using assms(1) k unfolding conserved_def by blast
  then have "p_Buffer p \<le> p_Reserved p"
    using assms(2) by simp
  moreover have "p_Reserved p \<le> n_Reserved (sys_node s)"
    using split by (simp add: word_le_nat_alt)
  ultimately show "accounted (sys_node s, p)"
    using assms(1) by (simp add: accounted_def conserved_def)
qed

lemma conserved_update:
  assumes "conserved s" and "sys_pods s k = Some p"
    and "accounted (n', p')" and "others (n', p') = others (sys_node s, p)"
  shows "conserved (s\<lparr>sys_node := n', sys_pods := (sys_pods s)(k \<mapsto> p')\<rparr>)"
proof -
  define m where "m = (sys_pods s)(k \<mapsto> p')"
  define f where "f = (\<lambda>j. unat (p_Reserved (the (sys_pods s j))))"
  define g where "g = (\<lambda>j. unat (p_Reserved (the (m j))))"
  define oth where "oth = unat (rounded (sys_resource s) (sys_otherResources s))"
  have fin: "finite (dom (sys_pods s))" and k: "k \<in> dom (sys_pods s)"
    using assms by (auto simp: conserved_def)
  have dom: "dom m = dom (sys_pods s)" using k by (auto simp: m_def)
  have "sum g (dom m) = g k + sum g (dom m - {k})"
    unfolding dom using fin k by (rule sum.remove)
  also have "sum g (dom m - {k}) = sum f (dom (sys_pods s) - {k})"
    unfolding dom by (rule sum.cong) (auto simp: g_def f_def m_def)
  also have "g k = unat (p_Reserved p')" by (simp add: g_def m_def)
  finally have "sum g (dom m) + oth = unat (p_Reserved p') + others (n', p')"
    using conserved_pod(2)[OF assms(1,2)] assms(4) by (simp add: f_def oth_def)
  moreover have "unat (p_Reserved p') \<le> unat (n_Reserved n')"
    using assms(3) by (simp add: accounted_def word_le_nat_alt)
  ultimately have total: "sum g (dom m) + oth = unat (n_Reserved n')"
    by (simp add: others_def)
  have bufs: "\<forall>j \<in> dom m. p_Buffer (the (m j)) \<le> p_Reserved (the (m j))"
    using assms(1,3) by (auto simp: conserved_def accounted_def m_def)
  have "n_Reserved n' \<le> n_Total n'" using assms(3) by (simp add: accounted_def)
  then show ?thesis
    unfolding conserved_def
    using fin total bufs dom by (simp add: m_def[symmetric] g_def oth_def)
qed

lemma conserved_delete:
  assumes "conserved s" and "sys_pods s k = Some p"
    and "unat (n_Reserved n') = others (sys_node s, p)" and "n_Reserved n' \<le> n_Total n'"
  shows "conserved (s\<lparr>sys_node := n', sys_pods := (sys_pods s)(k := None)\<rparr>)"
proof -
  define m where "m = (sys_pods s)(k := None)"
  define f where "f = (\<lambda>j. unat (p_Reserved (the (sys_pods s j))))"
  define g where "g = (\<lambda>j. unat (p_Reserved (the (m j))))"
  have fin: "finite (dom (sys_pods s))"
    using assms by (auto simp: conserved_def)
  have dom: "dom m = dom (sys_pods s) - {k}" by (auto simp: m_def)
  have "sum g (dom m) = sum f (dom (sys_pods s) - {k})"
    unfolding dom by (rule sum.cong) (auto simp: g_def f_def m_def)
  then have total: "sum g (dom m) + unat (rounded (sys_resource s) (sys_otherResources s))
                      = unat (n_Reserved n')"
    using conserved_pod(2)[OF assms(1,2)] assms(3) by (simp add: f_def)
  have bufs: "\<forall>j \<in> dom m. p_Buffer (the (m j)) \<le> p_Reserved (the (m j))"
    using assms(1) by (auto simp: conserved_def m_def)
  show ?thesis
    unfolding conserved_def
    using fin total bufs assms(4) dom by (simp add: m_def[symmetric] g_def)
qed

lemma conserved_insert:
  assumes "conserved s" and "sys_pods s k = None"
    and "p_Buffer p \<le> p_Reserved p" and "unat (p_Reserved p) \<le> room s"
  shows "conserved (s\<lparr>sys_node := fst (placePod (sys_node s, p)),
                       sys_pods := (sys_pods s)(k \<mapsto> snd (placePod (sys_node s, p)))\<rparr>)"
proof -
  define n where "n = sys_node s"
  define m where "m = (sys_pods s)(k \<mapsto> p)"
  define f where "f = (\<lambda>j. unat (p_Reserved (the (sys_pods s j))))"
  define g where "g = (\<lambda>j. unat (p_Reserved (the (m j))))"
  have fin: "finite (dom (sys_pods s))" and k: "k \<notin> dom (sys_pods s)"
    using assms by (auto simp: conserved_def)
  have le: "unat (n_Reserved n) \<le> unat (n_Total n)"
    using assms(1) by (simp add: conserved_def n_def word_le_nat_alt)
  have fit: "unat (n_Reserved n) + unat (p_Reserved p) \<le> unat (n_Total n)"
    using assms(4) le by (simp add: room_def n_def)
  have lim: "unat (n_Total n) < 2 ^ LENGTH(16)" by (rule unsigned_less)
  have "unat (n_Reserved n) + unat (p_Reserved p) < 2 ^ LENGTH(16)"
    using fit lim by linarith
  then have nR: "unat (n_Reserved n + p_Reserved p) = unat (n_Reserved n) + unat (p_Reserved p)"
    by (simp only: unat_add_lem[THEN iffD1])
  have pp: "placePod (n, p) = (n\<lparr>n_Reserved := n_Reserved n + p_Reserved p,
                                  n_Buffer := n_Buffer n + p_Buffer p,
                                  n_CapacityPressure := n_CapacityPressure n + p_CapacityPressure p\<rparr>, p)"
    by (simp add: placePod_def Let_def)
  have dom: "dom m = insert k (dom (sys_pods s))" by (auto simp: m_def)
  have "sum g (dom m) = g k + sum g (dom (sys_pods s))"
    unfolding dom using fin k by (rule sum.insert)
  also have "sum g (dom (sys_pods s)) = sum f (dom (sys_pods s))"
    using k by (intro sum.cong) (auto simp: g_def f_def m_def)
  also have "g k = unat (p_Reserved p)" by (simp add: g_def m_def)
  finally have total: "sum g (dom m) + unat (rounded (sys_resource s) (sys_otherResources s))
                         = unat (n_Reserved n + p_Reserved p)"
    using assms(1) nR by (simp add: conserved_def f_def n_def)
  have bufs: "\<forall>j \<in> dom m. p_Buffer (the (m j)) \<le> p_Reserved (the (m j))"
    using assms(1,3) by (auto simp: conserved_def m_def)
  have "n_Reserved n + p_Reserved p \<le> n_Total n"
    using fit nR by (simp add: word_le_nat_alt)
  then show ?thesis
    unfolding conserved_def n_def[symmetric] pp
    using fin total bufs dom by (simp add: m_def[symmetric] g_def)
qed

lemma conserved_other:
  assumes "conserved s"
    and "unat (rounded (sys_resource s) newState)
           \<le> unat (rounded (sys_resource s) (sys_otherResources s)) + room s"
  shows "conserved (s\<lparr>sys_node := propagateOther (rounded (sys_resource s) (sys_otherResources s))
                                     (rounded (sys_resource s) newState) (sys_node s),
                       sys_otherResources := newState, sys_otherPods := pods'\<rparr>)"
proof -
  define n where "n = sys_node s"
  define old where "old = rounded (sys_resource s) (sys_otherResources s)"
  define new where "new = rounded (sys_resource s) newState"
  define vm where "vm = (\<Sum>k \<in> dom (sys_pods s). unat (p_Reserved (the (sys_pods s k))))"
  have sum: "vm + unat old = unat (n_Reserved n)"
    and le: "unat (n_Reserved n) \<le> unat (n_Total n)"
    using assms(1) by (simp_all add: conserved_def vm_def old_def n_def word_le_nat_alt)
  have fit: "unat new \<le> unat old + (unat (n_Total n) - unat (n_Reserved n))"
    using assms(2) by (simp add: new_def old_def room_def n_def)
  have lim: "unat (n_Total n) < 2 ^ LENGTH(16)" by (rule unsigned_less)
  have o: "unat old \<le> unat (n_Reserved n)" using sum by simp
  have "unat (n_Reserved n) - unat old + unat new < 2 ^ LENGTH(16)"
    using fit sum le lim by linarith
  then have "unat (n_Reserved n + new - old) = unat (n_Reserved n) - unat old + unat new"
    using o by (rule unat_add_sub[rotated])
  moreover have eq: "n_Reserved n + (new - old) = n_Reserved n + new - old" by simp
  ultimately have nR: "unat (n_Reserved n + (new - old)) = vm + unat new"
    using sum by (simp only: eq)
  then have "n_Reserved n + (new - old) \<le> n_Total n"
    using fit sum le by (simp add: word_le_nat_alt)
  then show ?thesis
    using assms(1) nR
    by (simp add: conserved_def propagateOther_def n_def[symmetric] old_def[symmetric]
                  new_def[symmetric] vm_def[symmetric])
qed

lemma applyTo_conserved:
  assumes "conserved s" and "applyTo k h s = Inr s'"
    and "\<And>p r'. sys_pods s k = Some p \<Longrightarrow> accounted (sys_node s, p) \<Longrightarrow> h (sys_node s, p) = Inr r'
           \<Longrightarrow> accounted r' \<and> others r' = others (sys_node s, p)"
  shows "conserved s'"
proof (cases "sys_pods s k")
  case None
  then show ?thesis using assms(1,2) by (simp add: applyTo_def)
next
  case (Some p)
  then obtain n' p' where h: "h (sys_node s, p) = Inr (n', p')"
    and s': "s' = s\<lparr>sys_node := n', sys_pods := (sys_pods s)(k \<mapsto> p')\<rparr>"
    using assms(2) by (auto simp: applyTo_def split: sum.splits)
  have "accounted (n', p') \<and> others (n', p') = others (sys_node s, p)"
    using assms(3)[OF Some conserved_pod(1)[OF assms(1) Some] h] .
  then show ?thesis
    unfolding s' using conserved_update[OF assms(1) Some] by blast
qed

lemma otherChanged_conserved:
  assumes "conserved s" and "otherChanged result pods' s = Inr s'"
    and "\<And>newState. result = Inr newState \<Longrightarrow>
           unat (rounded (sys_resource s) newState)
             \<le> unat (rounded (sys_resource s) (sys_otherResources s)) + room s"
  shows "conserved s'"
proof (cases result)
  case (Inl e)
  then show ?thesis using assms(2) by (simp add: otherChanged_def)
next
  case (Inr newState)
  then have "s' = s\<lparr>sys_node := propagateOther (rounded (sys_resource s) (sys_otherResources s))
                                     (rounded (sys_resource s) newState) (sys_node s),
                       sys_otherResources := newState, sys_otherPods := pods'\<rparr>"
    using assms(2) by (simp add: otherChanged_def)
  then show ?thesis using conserved_other[OF assms(1) assms(3)[OF Inr]] by simp
qed

lemma step_conserved:
  assumes "conserved s" and "fits Value e s" and "step Value e s = Inr s'"
  shows "conserved s'"
proof (cases e)
  case (Placed k p)
  show ?thesis
  proof (cases "sys_pods s k")
    case None
    then have f: "p_Buffer p \<le> p_Reserved p" "unat (p_Reserved p) \<le> room s"
      using assms(2) Placed by simp_all
    have "s' = s\<lparr>sys_node := fst (placePod (sys_node s, p)),
                  sys_pods := (sys_pods s)(k \<mapsto> snd (placePod (sys_node s, p)))\<rparr>"
      using assms(3) Placed None by (simp add: case_prod_beta)
    then show ?thesis using conserved_insert[OF assms(1) None f] by simp
  next
    case (Some p')
    then show ?thesis using assms(1,3) Placed by simp
  qed
next
  case (LastPermit k lp)
  then have "applyTo k (\<lambda>r. Inr (handleLastPermit lp r)) s = Inr s'" using assms(3) by simp
  then show ?thesis
    by (rule applyTo_conserved[OF assms(1)]) (use accounted_handleLastPermit in blast)
next
  case (Requested k req sm f)
  then have "applyTo k (handleRequested req sm f) s = Inr s'" using assms(3) by simp
  then show ?thesis
    by (rule applyTo_conserved[OF assms(1)]) (use accounted_handleRequested in blast)
next
  case (Deleted k mig)
  show ?thesis
  proof (cases "sys_pods s k")
    case None
    then have "s' = s\<lparr>sys_pods := (sys_pods s)(k := None)\<rparr>"
      using assms(3) Deleted by (simp add: applyTo_def)
    moreover have "(sys_pods s)(k := None) = sys_pods s" using None by auto
    ultimately show ?thesis using assms(1) by simp
  next
    case (Some p)
    obtain n' p' where hd: "handleDeleted mig (sys_node s, p) = (n', p')"
      by (cases "handleDeleted mig (sys_node s, p)")
    have s': "s' = s\<lparr>sys_node := n', sys_pods := (sys_pods s)(k := None)\<rparr>"
      using assms(3) Deleted Some hd by (simp add: applyTo_def)
    have "unat (n_Reserved n') = others (sys_node s, p) \<and> n_Reserved n' \<le> n_Total n'"
      using accounted_handleDeleted[OF conserved_pod(1)[OF assms(1) Some], of mig] hd by simp
    then show ?thesis
      unfolding s' using conserved_delete[OF assms(1) Some] by blast
  qed
next
  case (AutoscalingDisabled k)
  then have "applyTo k (\<lambda>r. Inr (handleAutoscalingDisabled r)) s = Inr s'"
    using assms(3) by simp
  then show ?thesis
    by (rule applyTo_conserved[OF assms(1)]) (use accounted_handleAutoscalingDisabled in blast)
next
  case (StartMigration k src)
  then have "applyTo k (\<lambda>r. Inr (handleStartMigration src r)) s = Inr s'"
    using assms(3) by simp
  then show ?thesis
    by (rule applyTo_conserved[OF assms(1)]) (use accounted_handleStartMigration in blast)
next
  case (UpdatedLimits k rc mn mx)
  then have a: "applyTo k (\<lambda>r. Inr (handleUpdatedLimits r rc mn mx)) s = Inr s'"
    using assms(3) by simp
  show ?thesis
  proof (rule applyTo_conserved[OF assms(1) a])
    fix p r'
    assume p: "sys_pods s k = Some p" and acc: "accounted (sys_node s, p)"
      and r': "Inr (handleUpdatedLimits (sys_node s, p) rc mn mx) = Inr r'"
    have "rc \<or> p_Max p = mx
         \<or> unat (Max_util mx (p_Reserved p - p_Buffer p))
              \<le> unat (p_Reserved p) + (unat (n_Total (sys_node s)) - unat (n_Reserved (sys_node s)))"
      using assms(2) UpdatedLimits p by (auto simp: room_def split: if_splits)
    then show "accounted r' \<and> others r' = others (sys_node s, p)"
      using accounted_handleUpdatedLimits[OF acc, of rc mx mn] r' by simp
  qed
next
  case (NonAutoscalingUsageChange k u)
  then have a: "applyTo k (\<lambda>r. Inr (handleNonAutoscalingUsageChange u r)) s = Inr s'"
    using assms(3) by simp
  show ?thesis
  proof (rule applyTo_conserved[OF assms(1) a])
    fix p r'
    assume p: "sys_pods s k = Some p" and acc: "accounted (sys_node s, p)"
      and r': "Inr (handleNonAutoscalingUsageChange u (sys_node s, p)) = Inr r'"
    have "p_Buffer p \<le> u"
      and "unat u \<le> unat (p_Reserved p) + (unat (n_Total (sys_node s)) - unat (n_Reserved (sys_node s)))"
      using assms(2) NonAutoscalingUsageChange p by (auto simp: room_def)
    then show "accounted r' \<and> others r' = others (sys_node s, p)"
      using accounted_handleNonAutoscalingUsageChange[OF acc, of u] r' by simp
  qed
next
  case (OtherPlaced k m p)
  show ?thesis
  proof (cases "sys_otherPods s k")
    case None
    then have a: "otherChanged (addPod Value (sys_otherResources s) m p)
                    ((sys_otherPods s)(k \<mapsto> p)) s = Inr s'"
      using assms(3) OtherPlaced by simp
    show ?thesis
      by (rule otherChanged_conserved[OF assms(1) a]) (use assms(2) OtherPlaced None in simp)
  next
    case (Some p')
    then show ?thesis using assms(1,3) OtherPlaced by simp
  qed
next
  case (OtherDeleted k m)
  show ?thesis
  proof (cases "sys_otherPods s k")
    case None
    then show ?thesis using assms(1,3) OtherDeleted by simp
  next
    case (Some p)
    then have a: "otherChanged (subPod Value (sys_otherResources s) m p)
                    ((sys_otherPods s)(k := None)) s = Inr s'"
      using assms(3) OtherDeleted by simp
    show ?thesis
      by (rule otherChanged_conserved[OF assms(1) a]) (use assms(2) OtherDeleted Some in simp)
  qed
next
  case UpdatedConf
  then show ?thesis using assms(3) by (simp add: handleUpdatedConf_def)
qed

lemma run_conserved:
  assumes "conserved s" and "fitting Value evs s" and "run Value (take i evs) s = Inr s'"
  shows "conserved s'"
  using assms
proof (induction evs arbitrary: s i)
  case Nil
  then show ?case by simp
next
  case (Cons e es)
  show ?case
  proof (cases i)
    case 0
    then show ?thesis using Cons.prems by simp
  next
    case (Suc j)
    then obtain t where t: "step Value e s = Inr t" and r: "run Value (take j es) t = Inr s'"
      using Cons.prems(3) by (auto split: sum.splits)
    have "conserved t" using step_conserved[OF Cons.prems(1) _ t] Cons.prems(2) by simp
    moreover have "fitting Value es t" using Cons.prems(2) t by simp
    ultimately show ?thesis using Cons.IH r by blast
  qed
qed

lemma conserved_emptyNode: "conserved (emptyNode r nTotal nSystem nWatermark)"
  by (cases r) (simp_all add: conserved_def emptyNode_def rounded_def)

text \<open>Evaluating runs from an empty node.\<close>

lemmas ev_defs = emptyNode_def applyTo_def otherChanged_def propagateOther_def rounded_def
  room_def placePod_def handleRequested_def registerTail_def SaturatingSub_def
  handleLastPermit_def handleStartMigration_def handleAutoscalingDisabled_def valuesToReduce_def
  handleDeleted_def handleUpdatedLimits_def handleNonAutoscalingUsageChange_def Max_util_def
  addPod_def subPod_def calculateReserved_def int64_div_def Cmp_def Let_def

text \<open>
  Against claim C8 as stated. A limit update before the agent's first contact recomputes
  the reservation from the new maximum and compares nothing with \<open>Total\<close>: on an empty
  node with \<open>Total = 4\<close>, placing a pod that reserves 4 (which fits) and then raising the
  pod's maximum from 4 to 6 leaves the node with \<open>Reserved = 6\<close>.
\<close>

theorem limit_update_exceeds_Total:
  "fits (\<lambda>q. word_of_int \<lceil>q\<rceil>)
        (Placed ''a'' \<lparr>p_Reserved = 4, p_Buffer = 0, p_CapacityPressure = 0, p_Min = 1, p_Max = 4\<rparr>)
        (emptyNode Cpu 4 1 3)
   \<and> (case run (\<lambda>q. word_of_int \<lceil>q\<rceil>)
              [Placed ''a'' \<lparr>p_Reserved = 4, p_Buffer = 0, p_CapacityPressure = 0, p_Min = 1, p_Max = 4\<rparr>,
               UpdatedLimits ''a'' False 1 6]
              (emptyNode Cpu 4 1 3) of
        Inl e \<Rightarrow> False
      | Inr s' \<Rightarrow> n_Total (sys_node s') = 4 \<and> n_Reserved (sys_node s') = 6
                   \<and> \<not> n_Reserved (sys_node s') \<le> n_Total (sys_node s'))"
  by (simp add: ev_defs)

text \<open>
  The other three events that bring a reservation in do the same: a placement beyond the
  room left, a usage change of a pod that does not autoscale, and a non-VM pod.
\<close>

lemma placement_exceeds_Total:
  "case run (\<lambda>q. word_of_int \<lceil>q\<rceil>)
         [Placed ''a'' \<lparr>p_Reserved = 5, p_Buffer = 0, p_CapacityPressure = 0, p_Min = 1, p_Max = 5\<rparr>]
         (emptyNode Cpu 4 1 3) of
     Inl e \<Rightarrow> False
   | Inr s' \<Rightarrow> n_Total (sys_node s') = 4 \<and> n_Reserved (sys_node s') = 5"
  by (simp add: ev_defs)

lemma usage_change_exceeds_Total:
  "case run (\<lambda>q. word_of_int \<lceil>q\<rceil>)
         [Placed ''a'' \<lparr>p_Reserved = 4, p_Buffer = 0, p_CapacityPressure = 0, p_Min = 1, p_Max = 4\<rparr>,
          NonAutoscalingUsageChange ''a'' 6]
         (emptyNode Cpu 4 1 3) of
     Inl e \<Rightarrow> False
   | Inr s' \<Rightarrow> n_Total (sys_node s') = 4 \<and> n_Reserved (sys_node s') = 6"
  by (simp add: ev_defs)

lemma other_pod_exceeds_Total:
  "case run (\<lambda>q. word_of_int \<lceil>q\<rceil>)
         [OtherPlaced ''c'' 1 \<lparr>pod_rawCpu = 5, pod_rawMemory = 1\<rparr>]
         (emptyNode Cpu 4 1 3) of
     Inl e \<Rightarrow> False
   | Inr s' \<Rightarrow> n_Total (sys_node s') = 4 \<and> n_Reserved (sys_node s') = 5"
  by (simp add: ev_defs)

text \<open>
  A buffer beyond the reservation is as harmful: when autoscaling is disabled for the pod,
  the subtraction of the buffer wraps around.
\<close>

lemma buffer_beyond_reservation_exceeds_Total:
  "case run (\<lambda>q. word_of_int \<lceil>q\<rceil>)
         [Placed ''a'' \<lparr>p_Reserved = 1, p_Buffer = 3, p_CapacityPressure = 0, p_Min = 1, p_Max = 4\<rparr>,
          AutoscalingDisabled ''a'']
         (emptyNode Cpu 4 1 3) of
     Inl e \<Rightarrow> False
   | Inr s' \<Rightarrow> n_Total (sys_node s') = 4 \<and> n_Reserved (sys_node s') = 65534"
  by (simp add: ev_defs)

lemma usage_below_buffer_exceeds_Total:
  "case run (\<lambda>q. word_of_int \<lceil>q\<rceil>)
         [Placed ''a'' \<lparr>p_Reserved = 3, p_Buffer = 3, p_CapacityPressure = 0, p_Min = 1, p_Max = 4\<rparr>,
          NonAutoscalingUsageChange ''a'' 1, AutoscalingDisabled ''a'']
         (emptyNode Cpu 4 1 3) of
     Inl e \<Rightarrow> False
   | Inr s' \<Rightarrow> n_Total (sys_node s') = 4 \<and> n_Reserved (sys_node s') = 65534"
  by (simp add: ev_defs)

text \<open>
  Claim C8, amended. For every sequence of events applied to an initially empty node and
  for each resource, \<open>node.Reserved \<le> node.Total\<close> holds after every event that
  completes, provided every event that brings a reservation in from outside the ledger
  fits into the room left at the moment it is applied: the \<open>Reserved\<close> of a placed VM
  pod, the growth of the non-VM pods' rounded amount, the growth of a pod's reservation by a
  limit update before first contact, and the growth by a usage change of a pod that does
  not autoscale are each at most \<open>Total - node.Reserved\<close>, and a placed pod's buffer and
  the buffer of a pod whose usage changes are within the pod's new reservation. Requests of
  the agent, permit replay, deletion, disabling autoscaling, starting a migration and limit
  updates after first contact need no proviso, with any arguments and on any pods. This
  holds whatever \<open>Value()\<close> returns.
\<close>

theorem run_Reserved_within_Total:
  assumes "fitting Value evs (emptyNode r nTotal nSystem nWatermark)"
    and "run Value (take i evs) (emptyNode r nTotal nSystem nWatermark) = Inr s'"
  shows "n_Reserved (sys_node s') \<le> n_Total (sys_node s')"
proof -
  have "conserved s'"
    using conserved_emptyNode assms by (rule run_conserved)
  then show ?thesis by (simp add: conserved_def)
qed

text \<open>
  Two VM pods and a non-VM pod on a node with \<open>Total = 8\<close>: placed, then a capped request,
  a permit replay, a limit update before contact that fits, a migration, and both kinds of
  deletion.
\<close>

theorem run_Reserved_within_Total_witness:
  "fitting (\<lambda>q. word_of_int \<lceil>q\<rceil>)
     [Placed ''a'' \<lparr>p_Reserved = 3, p_Buffer = 0, p_CapacityPressure = 0, p_Min = 1, p_Max = 8\<rparr>,
      Placed ''b'' \<lparr>p_Reserved = 3, p_Buffer = 1, p_CapacityPressure = 0, p_Min = 1, p_Max = 4\<rparr>,
      OtherPlaced ''c'' 1 \<lparr>pod_rawCpu = 1, pod_rawMemory = 1\<rparr>,
      Requested ''a'' 6 False 1, LastPermit ''b'' 2, UpdatedLimits ''b'' False 1 3,
      StartMigration ''a'' True, Deleted ''a'' True, OtherDeleted ''c'' 1]
     (emptyNode Cpu 8 1 6)
   \<and> (case run (\<lambda>q. word_of_int \<lceil>q\<rceil>)
          (take 9
            [Placed ''a'' \<lparr>p_Reserved = 3, p_Buffer = 0, p_CapacityPressure = 0, p_Min = 1, p_Max = 8\<rparr>,
             Placed ''b'' \<lparr>p_Reserved = 3, p_Buffer = 1, p_CapacityPressure = 0, p_Min = 1, p_Max = 4\<rparr>,
             OtherPlaced ''c'' 1 \<lparr>pod_rawCpu = 1, pod_rawMemory = 1\<rparr>,
             Requested ''a'' 6 False 1, LastPermit ''b'' 2, UpdatedLimits ''b'' False 1 3,
             StartMigration ''a'' True, Deleted ''a'' True, OtherDeleted ''c'' 1])
          (emptyNode Cpu 8 1 6) of
        Inl e \<Rightarrow> False
      | Inr s' \<Rightarrow> n_Reserved (sys_node s') = 3
                   \<and> n_Reserved (sys_node s') \<le> n_Total (sys_node s'))"
proof -
  let ?V = "\<lambda>q :: Quantity. word_of_int \<lceil>q\<rceil> :: 64 word"
  let ?evs = "[Placed ''a'' \<lparr>p_Reserved = 3, p_Buffer = 0, p_CapacityPressure = 0, p_Min = 1, p_Max = 8\<rparr>,
      Placed ''b'' \<lparr>p_Reserved = 3, p_Buffer = 1, p_CapacityPressure = 0, p_Min = 1, p_Max = 4\<rparr>,
      OtherPlaced ''c'' 1 \<lparr>pod_rawCpu = 1, pod_rawMemory = 1\<rparr>,
      Requested ''a'' 6 False 1, LastPermit ''b'' 2, UpdatedLimits ''b'' False 1 3,
      StartMigration ''a'' True, Deleted ''a'' True, OtherDeleted ''c'' 1]"
  have f: "fitting ?V ?evs (emptyNode Cpu 8 1 6)"
    by (simp add: ev_defs)
  have r: "case run ?V (take 9 ?evs) (emptyNode Cpu 8 1 6) of
             Inl e \<Rightarrow> False | Inr s' \<Rightarrow> n_Reserved (sys_node s') = 3"
    by (simp add: ev_defs)
  then obtain s' where s': "run ?V (take 9 ?evs) (emptyNode Cpu 8 1 6) = Inr s'"
    and three: "n_Reserved (sys_node s') = 3"
    by (auto split: sum.splits)
  have "n_Reserved (sys_node s') \<le> n_Total (sys_node s')"
    by (rule run_Reserved_within_Total[OF f s'])
  then show ?thesis using f s' three by (simp del: take_Suc_Cons run.simps fitting.simps)
qed

end
